theory Spec2Isabelle
  imports Main
begin

section \<open>ProductCache: the per-user search result cache (searchHandler)\<close>

text \<open>
  The source keeps one object \<open>searchCache\<close>, keyed by the Telegram user id, whose values
  are \<open>{products, timestamp, query}\<close>.  The object is a partial map here; the functions
  that mutate it return the new map.  \<open>Date.now()\<close> is a parameter of every function
  that reads the clock (milliseconds, an integer).
\<close>

record 'p cache_entry =
  products :: "'p list"
  timestamp :: int
  query :: string

type_synonym 'p SearchResultCache = "int \<rightharpoonup> 'p cache_entry"

definition CACHE_DURATION :: int where
  "CACHE_DURATION = 2 * 60 * 60 * 1000"

text \<open>
  \<open>cacheSearchResults\<close> reads the clock twice: once for the stamp of the new entry
  (\<open>t_stamp\<close>) and once for the clean-up loop (\<open>now\<close>), which deletes every entry of
  the whole cache that is older than the cache duration.
\<close>

definition cacheSearchResults ::
  "int \<Rightarrow> int \<Rightarrow> 'p SearchResultCache \<Rightarrow> int \<Rightarrow> 'p list \<Rightarrow> string \<Rightarrow> 'p SearchResultCache" where
  "cacheSearchResults t_stamp now searchCache userId ps q =
     (let stored = searchCache(userId \<mapsto> \<lparr>products = ps, timestamp = t_stamp, query = q\<rparr>)
      in (\<lambda>uid. case stored uid of
                   None \<Rightarrow> None
                 | Some cache \<Rightarrow>
                     if now - timestamp cache > CACHE_DURATION then None else Some cache))"

text \<open>
  \<open>getCachedSearchResults\<close> returns \<open>{products, query}\<close> or \<open>null\<close>, and deletes an
  expired entry while reading.
\<close>

definition getCachedSearchResults ::
  "int \<Rightarrow> 'p SearchResultCache \<Rightarrow> int \<Rightarrow> ('p list \<times> string) option \<times> 'p SearchResultCache" where
  "getCachedSearchResults now searchCache userId =
     (case searchCache userId of
        None \<Rightarrow> (None, searchCache)
      | Some cache \<Rightarrow>
          if now - timestamp cache > CACHE_DURATION
          then (None, searchCache(userId := None))
          else (Some (products cache, query cache), searchCache))"

text \<open>
  \<open>getCachedProduct\<close>: the index arrives from callback data; an index below zero or at
  least the number of products gives \<open>null\<close>.
\<close>

definition getCachedProduct ::
  "int \<Rightarrow> 'p SearchResultCache \<Rightarrow> int \<Rightarrow> int \<Rightarrow> 'p option \<times> 'p SearchResultCache" where
  "getCachedProduct now searchCache userId index =
     (case getCachedSearchResults now searchCache userId of
        (None, searchCache') \<Rightarrow> (None, searchCache')
      | (Some (ps, q), searchCache') \<Rightarrow>
          if index < 0 \<or> index \<ge> int (length ps)
          then (None, searchCache')
          else (Some (ps ! nat index), searchCache'))"


section \<open>Strings\<close>

text \<open>
  JavaScript strings are modelled as lists of 8-bit characters.  The case mappings
  below change the ASCII letters and leave every other character as it is; the white
  space characters are the ones that \<open>trim\<close> and the regular expression class
  \<open>\s\<close> recognise in that range.
\<close>

definition toLowerCase_char :: "char \<Rightarrow> char" where
  "toLowerCase_char c =
     (case map_of (zip ''ABCDEFGHIJKLMNOPQRSTUVWXYZ'' ''abcdefghijklmnopqrstuvwxyz'') c of
        Some l \<Rightarrow> l
      | None \<Rightarrow> c)"

definition toUpperCase_char :: "char \<Rightarrow> char" where
  "toUpperCase_char c =
     (case map_of (zip ''abcdefghijklmnopqrstuvwxyz'' ''ABCDEFGHIJKLMNOPQRSTUVWXYZ'') c of
        Some u \<Rightarrow> u
      | None \<Rightarrow> c)"

definition toLowerCase :: "string \<Rightarrow> string" where
  "toLowerCase s = map toLowerCase_char s"

definition toUpperCase :: "string \<Rightarrow> string" where
  "toUpperCase s = map toUpperCase_char s"

definition is_space :: "char \<Rightarrow> bool" where
  "is_space c =
     (c \<in> set [CHR 0x09, CHR 0x0A, CHR 0x0B, CHR 0x0C, CHR 0x0D, CHR '' '', CHR 0xA0])"

definition trim :: "string \<Rightarrow> string" where
  "trim s = rev (dropWhile is_space (rev (dropWhile is_space s)))"

text \<open>\<open>s.split(sep)\<close> for a one-character separator: never an empty array.\<close>

fun split_on :: "char \<Rightarrow> string \<Rightarrow> string list" where
  "split_on sep [] = [[]]"
| "split_on sep (c # cs) =
     (if c = sep then [] # split_on sep cs
      else (case split_on sep cs of
              p # ps \<Rightarrow> (c # p) # ps
            | [] \<Rightarrow> [[c]]))"

text \<open>\<open>s.includes(pat)\<close>: \<open>pat\<close> occurs in \<open>s\<close> as a contiguous run.\<close>

definition startsWith :: "string \<Rightarrow> string \<Rightarrow> bool" where
  "startsWith s pat = (take (length pat) s = pat)"

fun str_includes :: "string \<Rightarrow> string \<Rightarrow> bool" where
  "str_includes [] pat = (pat = [])"
| "str_includes (c # cs) pat = (startsWith (c # cs) pat \<or> str_includes cs pat)"

text \<open>\<open>a || b\<close> on strings that may be undefined: the first one that is not falsy.\<close>

definition truthy :: "string option \<Rightarrow> bool" where
  "truthy v = (case v of None \<Rightarrow> False | Some s \<Rightarrow> s \<noteq> [])"

definition or_else :: "string option \<Rightarrow> string \<Rightarrow> string" where
  "or_else v d = (case v of None \<Rightarrow> d | Some s \<Rightarrow> if s = [] then d else s)"


subsection \<open>Regular expressions\<close>

text \<open>
  The regular expressions of the source that are only tested against a whole string
  are written as terms of \<open>rexp\<close> and run by derivatives.
\<close>

datatype rexp =
    Zero
  | One
  | Atom "char \<Rightarrow> bool"
  | Alt rexp rexp
  | Seq rexp rexp
  | Star rexp

fun nullable :: "rexp \<Rightarrow> bool" where
  "nullable Zero = False"
| "nullable One = True"
| "nullable (Atom p) = False"
| "nullable (Alt r s) = (nullable r \<or> nullable s)"
| "nullable (Seq r s) = (nullable r \<and> nullable s)"
| "nullable (Star r) = True"

fun deriv :: "char \<Rightarrow> rexp \<Rightarrow> rexp" where
  "deriv c Zero = Zero"
| "deriv c One = Zero"
| "deriv c (Atom p) = (if p c then One else Zero)"
| "deriv c (Alt r s) = Alt (deriv c r) (deriv c s)"
| "deriv c (Seq r s) =
     (if nullable r then Alt (Seq (deriv c r) s) (deriv c s) else Seq (deriv c r) s)"
| "deriv c (Star r) = Seq (deriv c r) (Star r)"

fun matches :: "rexp \<Rightarrow> string \<Rightarrow> bool" where
  "matches r [] = nullable r"
| "matches r (c # cs) = matches (deriv c r) cs"

definition Plus :: "rexp \<Rightarrow> rexp" where
  "Plus r = Seq r (Star r)"

definition Lit :: "char \<Rightarrow> rexp" where
  "Lit c = Atom (\<lambda>x. x = c)"

text \<open>The language of a regular expression, to say what \<open>matches\<close> decides.\<close>

inductive_set star :: "string set \<Rightarrow> string set" for A :: "string set" where
  star_empty: "[] \<in> star A"
| star_step: "u \<in> A \<Longrightarrow> v \<in> star A \<Longrightarrow> u @ v \<in> star A"

fun lang :: "rexp \<Rightarrow> string set" where
  "lang Zero = {}"
| "lang One = {[]}"
| "lang (Atom p) = {[c] | c. p c}"
| "lang (Alt r s) = lang r \<union> lang s"
| "lang (Seq r s) = {u @ v | u v. u \<in> lang r \<and> v \<in> lang s}"
| "lang (Star r) = star (lang r)"


section \<open>Data model of the checkout pipeline\<close>

datatype wallet_status = not_created | creating | created | wallet_error

record WalletUser =
  wallet_userId :: int
  telegramUsername :: "string option"
  firstName :: "string option"
  wallet_email :: "string option"
  crossmintUserId :: "string option"
  walletAddress :: "string option"
  walletStatus :: wallet_status
  authToken :: "string option"
  createdAt :: int
  lastActivity :: int

record AmazonProduct =
  title :: string
  price :: string
  amazonUrl :: string
  imageUrl :: "string option"
  description :: "string option"

record PhysicalAddress =
  addr_name :: string
  line1 :: string
  line2 :: "string option"
  city :: string
  addr_state :: "string option"
  postalCode :: string
  country :: string

datatype checkout_step =
  product_selected | collecting_email | collecting_address | creating_order | completed

record UserSession =
  session_userId :: int
  selectedProduct :: "AmazonProduct option"
  email :: "string option"
  physicalAddress :: "PhysicalAddress option"
  step :: checkout_step
  productIndex :: "int option"

text \<open>The request sent to \<open>POST /orders\<close>.\<close>

record Recipient =
  recipient_email :: string
  recipient_physicalAddress :: PhysicalAddress

record PaymentRequest =
  pay_method :: string
  pay_currency :: string
  pay_payerAddress :: string
  pay_receiptEmail :: string

record LineItem =
  productLocator :: string

record CreateOrderRequest =
  recipient :: Recipient
  payment_request :: PaymentRequest
  lineItems :: "LineItem list"

text \<open>
  The part of \<open>OrderResponseSchema\<close> that the checkout reads: the order id and phase, the
  quote and the payment with its optional preparation.  (The line items of the response
  are validated by the schema and never read afterwards; they are left out.)
\<close>

record Money =
  amount :: string
  currency :: string

record Quote =
  quote_status :: string
  totalPrice :: Money

record Preparation =
  chain :: "string option"
  payerAddress :: "string option"
  serializedTransaction :: "string option"

record Payment =
  payment_status :: string
  payment_method :: string
  payment_currency :: string
  preparation :: "Preparation option"

record Order =
  orderId :: string
  phase :: string
  order_quote :: Quote
  payment :: Payment

record OrderResponse =
  response_order :: Order
  orderClientSecret :: "string option"

text \<open>What \<open>createWalletAmazonOrder\<close> returns: the response and the two added fields.\<close>

record WalletOrder =
  validatedResponse :: OrderResponse
  requiresTransaction :: bool
  transaction_to_sign :: string

text \<open>
  Errors.  An axios error carries the response of the provider when there was one
  (\<open>error.response?.status\<close>, \<open>error.response?.statusText\<close>,
  \<open>error.response?.data?.message\<close>) and its own message.
\<close>

record ErrorResponse =
  err_status :: nat
  err_statusText :: string
  err_data_message :: "string option"

record AxiosError =
  err_response :: "ErrorResponse option"
  axios_message :: string

datatype js_error =
    Axios AxiosError
  | ZodError
  | Error string
  | TypeError string
  | SyntaxError string
  | ThrownNull

text \<open>The string that a template literal makes of a thrown value.\<close>

fun error_toString :: "js_error \<Rightarrow> string" where
  "error_toString (Axios e) = ''AxiosError: '' @ axios_message e"
| "error_toString ZodError = ''ZodError''"
| "error_toString (Error m) = ''Error: '' @ m"
| "error_toString (TypeError m) = ''TypeError: '' @ m"
| "error_toString (SyntaxError m) = ''SyntaxError: '' @ m"
| "error_toString ThrownNull = ''null''"

text \<open>
  The provider.  Each endpoint is a function of the world; the order endpoint also sees
  how many order requests the current invocation has sent before, so that it may answer
  the same request differently the second time.  A resolved \<open>POST /orders\<close> carries the
  body as \<open>OrderResponseSchema.parse\<close> reads it: \<open>None\<close> is a body that the schema
  rejects.  A resolved \<open>fetch\<close> carries the status and the body as \<open>response.json()\<close>
  reads it.
\<close>

datatype order_post = OrderRejected AxiosError | OrderResolved "OrderResponse option"

datatype tx_post = TxRejected AxiosError | TxResolved nat "string option"

datatype 'a fetch_result = FetchRejected | FetchResponse nat "'a option"

text \<open>
  The list of delegated signers has the type that the source declares for it,
  \<open>DelegatedSigner[]\<close>: every entry has a string \<open>signer\<close> (the optional \<open>chains\<close>
  are never read).
\<close>

record DelegatedSigner =
  signer :: string

record world =
  serverApiKey :: string
  webAppUrlValid :: bool
  authUrl :: "int \<Rightarrow> string"
  topUpUrl :: "int \<Rightarrow> string"
  signers_endpoint :: "string \<Rightarrow> DelegatedSigner list fetch_result"
  orders_endpoint :: "nat \<Rightarrow> CreateOrderRequest \<Rightarrow> order_post"
  transactions_endpoint :: "string \<Rightarrow> string \<Rightarrow> string \<Rightarrow> tx_post"
  balances_endpoint :: "string \<Rightarrow> nat option"

text \<open>The two process-wide maps that the checkout reads and writes.\<close>

record bot_state =
  userSessions :: "int \<rightharpoonup> UserSession"
  walletUsers :: "int \<rightharpoonup> WalletUser"

text \<open>
  Everything a handler does besides returning: the messages it sends, the requests it
  makes, the timers it starts and the writes to the session map, in the order of the
  source.  A message stands for the text and keyboard that the source builds; it keeps
  the values that differ from one call to the next.  Sending is the business of the
  transport: \<open>bot.sendMessage\<close> is taken to deliver, it does not throw here.
\<close>

datatype sign_error =
    FailedWithStatus nat
  | SigningFailed string
  | NetworkError string

datatype bot_message =
    WalletRequiredUnavailable
  | WalletRequired string
  | InsufficientFundsPrompt "string option"
  | CheckoutError
  | EmailRequired
  | ShippingAddressRequired
  | InvalidEmail
  | InvalidAddressFormat
  | IncompleteAddress
  | UnsupportedCountry
  | SomethingWentWrong
  | CreatingOrder
  | InsufficientUSDCFunds string string "string option"
  | ProcessingYourOrder string
  | PaymentSuccessful string "string option"
  | PaymentFailed sign_error
  | OrderCreatedSuccessfully string string
  | InsufficientUSDCFundsError "string option"
  | ShippingRestriction
  | OrderCreationFailed string

datatype effect =
    Send int bot_message
  | GetSigners string
  | GetBalances string
  | PostOrder CreateOrderRequest
  | PostTransaction string string string
  | StartOrderMonitoring string int
  | SessionSet int UserSession
  | SessionDelete int


section \<open>DelegationChecker (CrossmintDelegationService)\<close>

definition BOT_SIGNER_ADDRESS :: string where
  "BOT_SIGNER_ADDRESS = ''0x9AF659Ef26583C0793c35C52E076FBeA6486E31d''"

definition getUser :: "bot_state \<Rightarrow> int \<Rightarrow> WalletUser option" where
  "getUser st userId = walletUsers st userId"

definition hasWallet :: "bot_state \<Rightarrow> int \<Rightarrow> bool" where
  "hasWallet st userId =
     (case getUser st userId of
        None \<Rightarrow> False
      | Some user \<Rightarrow> walletStatus user = created \<and> truthy (walletAddress user))"

definition response_ok :: "nat \<Rightarrow> bool" where
  "response_ok status = (200 \<le> status \<and> status \<le> 299)"

text \<open>
  The body of the \<open>try\<close> block of \<open>isDelegatedToBotSigner\<close>: either a thrown error
  (a rejected \<open>fetch\<close>, a body that is not JSON) or the boolean it returns.
\<close>

definition isDelegatedToBotSigner_try ::
  "world \<Rightarrow> bot_state \<Rightarrow> int \<Rightarrow> (js_error + bool) \<times> effect list" where
  "isDelegatedToBotSigner_try w st userId =
     (case getUser st userId of
        None \<Rightarrow> (Inr False, [])
      | Some user \<Rightarrow>
          if \<not> truthy (walletAddress user) then (Inr False, [])
          else if serverApiKey w = [] then (Inr False, [])
          else
            (let address = or_else (walletAddress user) [] in
             case signers_endpoint w address of
               FetchRejected \<Rightarrow> (Inl (TypeError ''fetch failed''), [GetSigners address])
             | FetchResponse status body \<Rightarrow>
                 if \<not> response_ok status then (Inr False, [GetSigners address])
                 else
                   (case body of
                      None \<Rightarrow> (Inl (SyntaxError ''Unexpected token''), [GetSigners address])
                    | Some delegatedSigners \<Rightarrow>
                        (Inr (list_ex (\<lambda>s. toLowerCase (signer s)
                                            = toLowerCase BOT_SIGNER_ADDRESS) delegatedSigners),
                         [GetSigners address]))))"

definition isDelegatedToBotSigner :: "world \<Rightarrow> bot_state \<Rightarrow> int \<Rightarrow> bool \<times> effect list" where
  "isDelegatedToBotSigner w st userId =
     (case isDelegatedToBotSigner_try w st userId of
        (Inl error, effs) \<Rightarrow> (False, effs)
      | (Inr isBotDelegated, effs) \<Rightarrow> (isBotDelegated, effs))"


section \<open>OrderGateway (CrossmintHeadlessCheckoutService)\<close>

subsection \<open>The product locator\<close>

definition is_alnum :: "char \<Rightarrow> bool" where
  "is_alnum c =
     (c \<in> set ''ABCDEFGHIJKLMNOPQRSTUVWXYZabcdefghijklmnopqrstuvwxyz0123456789'')"

definition startsWith_ci :: "string \<Rightarrow> string \<Rightarrow> bool" where
  "startsWith_ci s pat = (toLowerCase (take (length pat) s) = toLowerCase pat)"

text \<open>The group \<open>([A-Z0-9]{10})\<close> under the flag \<open>i\<close>, at the start of a string.\<close>

definition asin_group :: "string \<Rightarrow> string option" where
  "asin_group s =
     (if 10 \<le> length s \<and> list_all is_alnum (take 10 s) then Some (take 10 s) else None)"

text \<open>
  \<open>amazonUrl.match(/\/(?:dp|gp\/product)\/([A-Z0-9]{10})/i)\<close>: the first position of
  the string where the pattern matches decides, and the result is the group.
\<close>

definition asinMatch_at :: "string \<Rightarrow> string option" where
  "asinMatch_at s =
     (case (if startsWith_ci s ''/dp/'' then asin_group (drop 4 s) else None) of
        Some a \<Rightarrow> Some a
      | None \<Rightarrow> if startsWith_ci s ''/gp/product/'' then asin_group (drop 12 s) else None)"

fun asinMatch :: "string \<Rightarrow> string option" where
  "asinMatch [] = None"
| "asinMatch (c # cs) =
     (case asinMatch_at (c # cs) of
        Some a \<Rightarrow> Some a
      | None \<Rightarrow> asinMatch cs)"

text \<open>\<open>amazonUrl.match(/amazon\.com\/dp\/([A-Z0-9]{10})/i)\<close>.\<close>

definition urlMatch_at :: "string \<Rightarrow> string option" where
  "urlMatch_at s =
     (if startsWith_ci s ''amazon.com/dp/'' then asin_group (drop 14 s) else None)"

fun urlMatch :: "string \<Rightarrow> string option" where
  "urlMatch [] = None"
| "urlMatch (c # cs) =
     (case urlMatch_at (c # cs) of
        Some a \<Rightarrow> Some a
      | None \<Rightarrow> urlMatch cs)"

definition extractProductLocator :: "string \<Rightarrow> string option" where
  "extractProductLocator url =
     (case asinMatch url of
        Some extractedAsin \<Rightarrow> Some (''amazon:'' @ extractedAsin)
      | None \<Rightarrow>
          (case urlMatch url of
             Some asinFromUrl \<Rightarrow> Some (''amazon:'' @ asinFromUrl)
           | None \<Rightarrow> None))"

definition getBestBlockchainForWallet :: "string \<Rightarrow> string" where
  "getBestBlockchainForWallet address = ''base-sepolia''"

definition getProductLocatorVariations :: "string \<Rightarrow> string \<Rightarrow> string list" where
  "getProductLocatorVariations asin url =
     [''amazon:'' @ asin,
      ''amazon:https://www.amazon.com/dp/'' @ asin,
      ''amazon:'' @ url,
      asin,
      ''https://www.amazon.com/dp/'' @ asin]"


subsection \<open>The retry loop over the locator variations\<close>

text \<open>
  \<open>status !== 400 || !message?.includes('Product not found')\<close>, on an axios error.
\<close>

definition error_status :: "AxiosError \<Rightarrow> nat option" where
  "error_status e = map_option err_status (err_response e)"

definition error_data_message :: "AxiosError \<Rightarrow> string option" where
  "error_data_message e =
     (case err_response e of None \<Rightarrow> None | Some r \<Rightarrow> err_data_message r)"

definition product_not_found :: "AxiosError \<Rightarrow> bool" where
  "product_not_found e =
     (error_status e = Some 400
      \<and> (case error_data_message e of
            None \<Rightarrow> False
          | Some message \<Rightarrow> str_includes message ''Product not found''))"

text \<open>
  The loop of \<open>createOrderWithRetry\<close>, from attempt \<open>i\<close> on, with the variations still
  to try and the error remembered so far.  The \<open>return\<close> and the schema's \<open>parse\<close> are
  inside the \<open>try\<close>: a body that the schema rejects throws a \<open>ZodError\<close> there, which is
  not an axios error, so the handler records it and the loop goes on.
\<close>

fun createOrderWithRetry_loop ::
  "world \<Rightarrow> CreateOrderRequest \<Rightarrow> nat \<Rightarrow> string list \<Rightarrow> js_error option
     \<Rightarrow> (js_error + OrderResponse) \<times> effect list" where
  "createOrderWithRetry_loop w orderRequest i [] lastError =
     (Inl (case lastError of None \<Rightarrow> ThrownNull | Some e \<Rightarrow> e), [])"
| "createOrderWithRetry_loop w orderRequest i (locator # rest) lastError =
     (let currentRequest = orderRequest\<lparr>lineItems := [\<lparr>productLocator = locator\<rparr>]\<rparr> in
      case orders_endpoint w i currentRequest of
        OrderResolved data \<Rightarrow>
          (case data of
             Some parsed \<Rightarrow> (Inr parsed, [PostOrder currentRequest])
           | None \<Rightarrow>
               (case createOrderWithRetry_loop w orderRequest (Suc i) rest (Some ZodError) of
                  (res, effs) \<Rightarrow> (res, PostOrder currentRequest # effs)))
      | OrderRejected error \<Rightarrow>
          if \<not> product_not_found error
          then (Inl (Axios error), [PostOrder currentRequest])
          else
            (case createOrderWithRetry_loop w orderRequest (Suc i) rest (Some (Axios error)) of
               (res, effs) \<Rightarrow> (res, PostOrder currentRequest # effs)))"

definition createOrderWithRetry ::
  "world \<Rightarrow> CreateOrderRequest \<Rightarrow> string list
     \<Rightarrow> (js_error + OrderResponse) \<times> effect list" where
  "createOrderWithRetry w orderRequest productLocatorVariations =
     createOrderWithRetry_loop w orderRequest 0 productLocatorVariations None"


subsection \<open>Creating and classifying the order\<close>

definition order_serializedTransaction :: "Order \<Rightarrow> string option" where
  "order_serializedTransaction ord =
     (case preparation (payment ord) of
        None \<Rightarrow> None
      | Some prep \<Rightarrow> serializedTransaction prep)"

definition order_chain :: "Order \<Rightarrow> string option" where
  "order_chain ord =
     (case preparation (payment ord) of
        None \<Rightarrow> None
      | Some prep \<Rightarrow> chain prep)"

text \<open>The checks that \<open>createWalletAmazonOrder\<close> makes on the validated response.\<close>

definition check_order_response :: "OrderResponse \<Rightarrow> js_error + WalletOrder" where
  "check_order_response validated =
     (let ord = response_order validated in
      if payment_status (payment ord) = ''crypto-payer-insufficient-funds''
      then Inl (Error ''Insufficient USDC funds in wallet'')
      else if quote_status (order_quote ord) = ''requires-physical-address''
      then Inl (Error ''Physical address is required for this product'')
      else if \<not> truthy (order_serializedTransaction ord)
      then Inl (Error (''No serialized transaction found for order. ''
                       @ ''This item may not be available for purchase.''))
      else Inr \<lparr>validatedResponse = validated, requiresTransaction = True,
                transaction_to_sign = or_else (order_serializedTransaction ord) []\<rparr>)"

definition make_orderRequest ::
  "string \<Rightarrow> string \<Rightarrow> string \<Rightarrow> PhysicalAddress \<Rightarrow> CreateOrderRequest" where
  "make_orderRequest locator userEmail address shippingAddress =
     \<lparr>recipient = \<lparr>recipient_email = userEmail,
                   recipient_physicalAddress = shippingAddress\<rparr>,
      payment_request = \<lparr>pay_method = getBestBlockchainForWallet address,
                         pay_currency = ''usdc'',
                         pay_payerAddress = address,
                         pay_receiptEmail = userEmail\<rparr>,
      lineItems = [\<lparr>productLocator = locator\<rparr>]\<rparr>"

text \<open>The \<open>try\<close> block of \<open>createWalletAmazonOrder\<close>.\<close>

definition createWalletAmazonOrder_try ::
  "world \<Rightarrow> AmazonProduct \<Rightarrow> string \<Rightarrow> string \<Rightarrow> PhysicalAddress
     \<Rightarrow> (js_error + WalletOrder) \<times> effect list" where
  "createWalletAmazonOrder_try w product userEmail address shippingAddress =
     (case extractProductLocator (amazonUrl product) of
        None \<Rightarrow> (Inl (Error ''Could not extract product locator from Amazon URL''), [])
      | Some locator \<Rightarrow>
          (case asinMatch (amazonUrl product) of
             None \<Rightarrow> (Inl (Error ''Could not extract ASIN from Amazon URL''), [])
           | Some asin \<Rightarrow>
               if country shippingAddress \<noteq> ''US''
               then (Inl (Error ''Only US shipping addresses are supported at this time''), [])
               else if \<not> truthy (addr_state shippingAddress)
               then (Inl (Error ''State is required for US shipping addresses''), [])
               else
                 (case createOrderWithRetry w
                         (make_orderRequest locator userEmail address shippingAddress)
                         (getProductLocatorVariations asin (amazonUrl product)) of
                    (Inl error, effs) \<Rightarrow> (Inl error, effs)
                  | (Inr validated, effs) \<Rightarrow> (check_order_response validated, effs))))"

text \<open>
  The \<open>catch\<close> block of \<open>createWalletAmazonOrder\<close>: whatever was thrown inside the
  \<open>try\<close> is thrown again as a plain \<open>Error\<close>, whose message is computed here.
\<close>

definition axios_error_text :: "AxiosError \<Rightarrow> string option" where
  "axios_error_text e =
     (case err_response e of
        None \<Rightarrow> None
      | Some r \<Rightarrow> if truthy (err_data_message r) then err_data_message r
                  else Some (err_statusText r))"

definition createWalletAmazonOrder_catch :: "js_error \<Rightarrow> string" where
  "createWalletAmazonOrder_catch error =
     (case error of
        Axios e \<Rightarrow>
          (let status = error_status e; message = axios_error_text e in
           if status = Some 400
           then ''Invalid order data: ''
                  @ or_else message ''Check product locator and payment details''
           else if status = Some 401 \<or> status = Some 403
           then ''Invalid Crossmint API key or insufficient permissions''
           else if status = Some 404
           then ''Product not found or not supported for Amazon purchases''
           else if (case status of None \<Rightarrow> False | Some n \<Rightarrow> n \<noteq> 0 \<and> 500 \<le> n)
           then ''Crossmint service is temporarily unavailable''
           else ''Order creation failed: '' @ or_else message (axios_message e))
      | ZodError \<Rightarrow> ''Invalid response format from Crossmint API''
      | _ \<Rightarrow> ''Unexpected error during order creation: '' @ error_toString error)"

text \<open>
  \<open>createWalletAmazonOrder\<close>: the message of the \<open>Error\<close> it throws, or the order with
  the transaction to sign.
\<close>

definition createWalletAmazonOrder ::
  "world \<Rightarrow> AmazonProduct \<Rightarrow> string \<Rightarrow> string \<Rightarrow> PhysicalAddress
     \<Rightarrow> (string + WalletOrder) \<times> effect list" where
  "createWalletAmazonOrder w product userEmail address shippingAddress =
     (case createWalletAmazonOrder_try w product userEmail address shippingAddress of
        (Inl error, effs) \<Rightarrow> (Inl (createWalletAmazonOrder_catch error), effs)
      | (Inr result, effs) \<Rightarrow> (Inr result, effs))"


subsection \<open>Submitting the transaction\<close>

datatype sign_result = SignSuccess "string option" | SignFailure sign_error

definition signOrderTransaction ::
  "world \<Rightarrow> string \<Rightarrow> string \<Rightarrow> string \<Rightarrow> sign_result \<times> effect list" where
  "signOrderTransaction w address transaction chainName =
     (case transactions_endpoint w address transaction chainName of
        TxResolved status transactionId \<Rightarrow>
          (if status = 200 \<or> status = 201 then SignSuccess transactionId
           else SignFailure (FailedWithStatus status),
           [PostTransaction address transaction chainName])
      | TxRejected error \<Rightarrow>
          ((case err_response error of
              Some r \<Rightarrow>
                SignFailure (SigningFailed
                  (if truthy (err_data_message r) then or_else (err_data_message r) []
                   else err_statusText r))
            | None \<Rightarrow> SignFailure (NetworkError (axios_message error))),
           [PostTransaction address transaction chainName]))"


section \<open>Wallet service: the functions that the checkout calls\<close>

text \<open>
  \<open>generateAuthLink\<close> creates the user record when there is none and stamps the last
  activity otherwise; the link itself is the world's \<open>authUrl\<close>.  \<open>generateTopUpLink\<close>
  throws when the user has no wallet address; the link is the world's \<open>topUpUrl\<close>
  (the record of the top-up session that the source also keeps is not modelled).
  \<open>getWalletBalance\<close> is a read of the provider: the world says whether it succeeded
  and how many balance entries came back.
\<close>

definition generateAuthLink ::
  "world \<Rightarrow> bot_state \<Rightarrow> int \<Rightarrow> int \<Rightarrow> string option \<Rightarrow> string option
     \<Rightarrow> string option \<times> bot_state" where
  "generateAuthLink w st now userId username first =
     (let user' =
        (case walletUsers st userId of
           None \<Rightarrow>
             \<lparr>wallet_userId = userId,
              telegramUsername = (if truthy username then username else None),
              firstName = (if truthy first then first else None),
              wallet_email = None, crossmintUserId = None, walletAddress = None,
              walletStatus = not_created, authToken = None,
              createdAt = now, lastActivity = now\<rparr>
         | Some user \<Rightarrow>
             user\<lparr>lastActivity := now,
                  telegramUsername :=
                    (if truthy username then username else telegramUsername user),
                  firstName := (if truthy first then first else firstName user)\<rparr>);
          st' = st\<lparr>walletUsers := (walletUsers st)(userId \<mapsto> user')\<rparr>
      in if \<not> webAppUrlValid w then (None, st') else (Some (authUrl w userId), st'))"

definition generateTopUpLink :: "world \<Rightarrow> bot_state \<Rightarrow> int \<Rightarrow> string + string option" where
  "generateTopUpLink w st userId =
     (case getUser st userId of
        None \<Rightarrow> Inl ''User wallet not found''
      | Some user \<Rightarrow>
          if \<not> truthy (walletAddress user) then Inl ''User wallet not found''
          else if \<not> webAppUrlValid w then Inr None
          else Inr (Some (topUpUrl w userId)))"

definition getWalletBalance :: "world \<Rightarrow> bot_state \<Rightarrow> int \<Rightarrow> nat option \<times> effect list" where
  "getWalletBalance w st userId =
     (case getUser st userId of
        None \<Rightarrow> (None, [])
      | Some user \<Rightarrow>
          if \<not> truthy (walletAddress user) then (None, [])
          else (balances_endpoint w (or_else (walletAddress user) []),
                [GetBalances (or_else (walletAddress user) [])]))"


section \<open>CheckoutSession (checkoutHandler)\<close>

record message =
  from_id :: "int option"
  chat_id :: int
  msg_text :: "string option"

text \<open>\<open>/^[^\s@]+@[^\s@]+\.[^\s@]+$/\<close>\<close>

definition not_space_or_at :: "char \<Rightarrow> bool" where
  "not_space_or_at c = (\<not> is_space c \<and> c \<noteq> CHR ''@'')"

definition emailRegex :: rexp where
  "emailRegex =
     Seq (Plus (Atom not_space_or_at))
    (Seq (Lit CHR ''@'')
    (Seq (Plus (Atom not_space_or_at))
    (Seq (Lit CHR ''.'')
         (Plus (Atom not_space_or_at)))))"

subsection \<open>Opening a session\<close>

definition startWalletCheckoutFlow ::
  "world \<Rightarrow> bot_state \<Rightarrow> int \<Rightarrow> int \<Rightarrow> int \<Rightarrow> AmazonProduct \<Rightarrow> int
     \<Rightarrow> bot_state \<times> effect list" where
  "startWalletCheckoutFlow w st now chatId userId product index =
     (if \<not> hasWallet st userId
      then
        (case generateAuthLink w st now userId None None of
           (None, st') \<Rightarrow> (st', [Send chatId WalletRequiredUnavailable])
         | (Some authLink, st') \<Rightarrow> (st', [Send chatId (WalletRequired authLink)]))
      else
        (let userWallet = getUser st userId in
         case getWalletBalance w st userId of
           (balance, effs) \<Rightarrow>
             if (case balance of None \<Rightarrow> True | Some n \<Rightarrow> n = 0)
             then
               (case generateTopUpLink w st userId of
                  Inl thrown \<Rightarrow> (st, effs @ [Send chatId CheckoutError])
                | Inr topupLink \<Rightarrow>
                    (st, effs @ [Send chatId (InsufficientFundsPrompt topupLink)]))
             else
               (let created = \<lparr>session_userId = userId, selectedProduct = Some product,
                                email = None, physicalAddress = None,
                                step = collecting_email, productIndex = Some index\<rparr>;
                    session =
                      (case userWallet of
                         None \<Rightarrow> created
                       | Some user \<Rightarrow>
                           if truthy (wallet_email user)
                           then created\<lparr>email := wallet_email user\<rparr>
                           else created)
                in if truthy (email session)
                   then
                     (let session' = session\<lparr>step := collecting_address\<rparr> in
                      (st\<lparr>userSessions := (userSessions st)(userId \<mapsto> session')\<rparr>,
                       effs @ [SessionSet userId session, SessionSet userId session',
                               Send chatId ShippingAddressRequired]))
                   else
                     (st\<lparr>userSessions := (userSessions st)(userId \<mapsto> session)\<rparr>,
                      effs @ [SessionSet userId session, Send chatId EmailRequired]))))"


subsection \<open>Creating the order and signing\<close>

text \<open>
  How the \<open>try\<close> block of \<open>createHeadlessOrder\<close> ends: by an error thrown, by the
  \<open>return\<close> of the insufficient-funds branch (which skips the clean-up), or by running
  to its end, where the session is deleted.
\<close>

datatype try_outcome = Thrown string | Returned | Finished

definition createHeadlessOrder_try ::
  "world \<Rightarrow> bot_state \<Rightarrow> int \<Rightarrow> int \<Rightarrow> UserSession \<Rightarrow> try_outcome \<times> effect list" where
  "createHeadlessOrder_try w st chatId userId session =
     (case selectedProduct session of
        None \<Rightarrow> (Thrown ''Missing required session data'', [])
      | Some product \<Rightarrow>
     if \<not> truthy (email session) then (Thrown ''Missing required session data'', [])
     else
     (case physicalAddress session of
        None \<Rightarrow> (Thrown ''Missing required session data'', [])
      | Some shippingAddress \<Rightarrow>
     if \<not> (case getUser st userId of None \<Rightarrow> False | Some u \<Rightarrow> truthy (walletAddress u))
     then (Thrown ''User wallet not found'', [Send chatId CreatingOrder])
     else
     (let address = (case getUser st userId of
                       None \<Rightarrow> []
                     | Some u \<Rightarrow> or_else (walletAddress u) []) in
      case createWalletAmazonOrder w product (or_else (email session) []) address
             shippingAddress of
        (Inl thrown, effs) \<Rightarrow> (Thrown thrown, Send chatId CreatingOrder # effs)
      | (Inr orderResponse, effs) \<Rightarrow>
          (let ord = response_order (validatedResponse orderResponse);
               orderStatus = or_else (Some (payment_status (payment ord))) ''pending'';
               totalAmount = or_else (Some (amount (totalPrice (order_quote ord)))) ''N/A'';
               totalCurrency =
                 or_else (Some (toUpperCase (currency (totalPrice (order_quote ord)))))
                   ''USDC'';
               transaction = order_serializedTransaction ord;
               done = Send chatId CreatingOrder # effs
           in
           if orderStatus = ''crypto-payer-insufficient-funds''
           then
             (case generateTopUpLink w st userId of
                Inl thrown \<Rightarrow> (Thrown thrown, done)
              | Inr topupLink \<Rightarrow>
                  (Returned,
                   done @ [Send chatId (InsufficientUSDCFunds totalAmount totalCurrency
                                          topupLink)]))
           else if quote_status (order_quote ord) = ''requires-physical-address''
           then (Thrown (''Physical address validation failed. ''
                         @ ''Please check your shipping address.''), done)
           else if truthy transaction
           then
             (let paymentChain = or_else (order_chain ord) ''base-sepolia'' in
              case signOrderTransaction w address (or_else transaction []) paymentChain of
                (SignSuccess transactionId, sent) \<Rightarrow>
                  (Finished,
                   done @ [Send chatId (ProcessingYourOrder (orderId ord))] @ sent
                     @ [Send chatId (PaymentSuccessful (orderId ord) transactionId),
                        StartOrderMonitoring (orderId ord) userId])
              | (SignFailure failure, sent) \<Rightarrow>
                  (Finished,
                   done @ [Send chatId (ProcessingYourOrder (orderId ord))] @ sent
                     @ [Send chatId (PaymentFailed failure)]))
           else
             (Finished,
              done @ [Send chatId (OrderCreatedSuccessfully (orderId ord) orderStatus),
                      StartOrderMonitoring (orderId ord) userId])))))"

text \<open>
  \<open>createHeadlessOrder\<close> with its \<open>catch\<close> block.  The first component is the error
  that leaves the function: \<open>generateTopUpLink\<close> is called inside the \<open>catch\<close> block
  and may throw there.
\<close>

definition delete_session :: "bot_state \<Rightarrow> int \<Rightarrow> bot_state" where
  "delete_session st userId = st\<lparr>userSessions := (userSessions st)(userId := None)\<rparr>"

definition createHeadlessOrder ::
  "world \<Rightarrow> bot_state \<Rightarrow> int \<Rightarrow> int \<Rightarrow> UserSession
     \<Rightarrow> string option \<times> bot_state \<times> effect list" where
  "createHeadlessOrder w st chatId userId session =
     (case createHeadlessOrder_try w st chatId userId session of
        (Finished, effs) \<Rightarrow> (None, delete_session st userId, effs @ [SessionDelete userId])
      | (Returned, effs) \<Rightarrow> (None, st, effs)
      | (Thrown errorMessage, effs) \<Rightarrow>
          if str_includes errorMessage ''Insufficient USDC funds''
          then
            (case generateTopUpLink w st userId of
               Inl thrown \<Rightarrow> (Some thrown, st, effs)
             | Inr topupLink \<Rightarrow>
                 (None, delete_session st userId,
                  effs @ [Send chatId (InsufficientUSDCFundsError topupLink),
                          SessionDelete userId]))
          else if str_includes errorMessage ''US shipping addresses''
          then (None, delete_session st userId,
                effs @ [Send chatId ShippingRestriction, SessionDelete userId])
          else (None, delete_session st userId,
                effs @ [Send chatId (OrderCreationFailed errorMessage),
                        SessionDelete userId]))"


subsection \<open>Text messages during checkout\<close>

definition handleEmailInput ::
  "bot_state \<Rightarrow> int \<Rightarrow> int \<Rightarrow> string \<Rightarrow> UserSession \<Rightarrow> bool \<times> bot_state \<times> effect list" where
  "handleEmailInput st chatId userId text session =
     (if \<not> matches emailRegex text then (True, st, [Send chatId InvalidEmail])
      else
        (let session' = session\<lparr>email := Some text, step := collecting_address\<rparr> in
         (True,
          st\<lparr>userSessions := (userSessions st)(userId \<mapsto> session')\<rparr>,
          SessionSet userId session'
            # (if selectedProduct session' \<noteq> None
               then [Send chatId ShippingAddressRequired] else []))))"

definition handleAddressInput ::
  "world \<Rightarrow> bot_state \<Rightarrow> int \<Rightarrow> int \<Rightarrow> string \<Rightarrow> UserSession
     \<Rightarrow> (string + bool) \<times> bot_state \<times> effect list" where
  "handleAddressInput w st chatId userId addressText session =
     (let parts = map trim (split_on CHR ''|'' addressText) in
      if length parts < 6 then (Inr True, st, [Send chatId InvalidAddressFormat])
      else if parts ! 0 = [] \<or> parts ! 1 = [] \<or> parts ! 2 = [] \<or> parts ! 3 = []
              \<or> parts ! 4 = [] \<or> parts ! 5 = []
      then (Inr True, st, [Send chatId IncompleteAddress])
      else if toUpperCase (parts ! 5) \<noteq> ''US''
      then (Inr True, st, [Send chatId UnsupportedCountry])
      else
        (let session' = session\<lparr>physicalAddress :=
                           Some \<lparr>addr_name = parts ! 0, line1 = parts ! 1, line2 = None,
                                 city = parts ! 2, addr_state = Some (parts ! 3),
                                 postalCode = parts ! 4,
                                 country = toUpperCase (parts ! 5)\<rparr>,
                         step := creating_order\<rparr>;
             st' = st\<lparr>userSessions := (userSessions st)(userId \<mapsto> session')\<rparr>
         in case createHeadlessOrder w st' chatId userId session' of
              (None, st'', effs) \<Rightarrow> (Inr True, st'', SessionSet userId session' # effs)
            | (Some thrown, st'', effs) \<Rightarrow>
                (Inl thrown, st'', SessionSet userId session' # effs)))"

definition handleCheckoutMessage ::
  "world \<Rightarrow> bot_state \<Rightarrow> message \<Rightarrow> bool \<times> bot_state \<times> effect list" where
  "handleCheckoutMessage w st msg =
     (let text = map_option trim (msg_text msg) in
      case from_id msg of
        None \<Rightarrow> (False, st, [])
      | Some userId \<Rightarrow>
          if userId = 0 \<or> \<not> truthy text then (False, st, [])
          else
            (case userSessions st userId of
               None \<Rightarrow> (False, st, [])
             | Some session \<Rightarrow>
                 if selectedProduct session = None then (False, st, [])
                 else
                   (case step session of
                      collecting_email \<Rightarrow>
                        handleEmailInput st (chat_id msg) userId (or_else text []) session
                    | collecting_address \<Rightarrow>
                        (case handleAddressInput w st (chat_id msg) userId (or_else text [])
                                session of
                           (Inr handled, st', effs) \<Rightarrow> (handled, st', effs)
                         | (Inl thrown, st', effs) \<Rightarrow>
                             (True, delete_session st' userId,
                              effs @ [Send (chat_id msg) SomethingWentWrong,
                                      SessionDelete userId]))
                    | _ \<Rightarrow> (False, st, []))))"


subsection \<open>Sequences of text messages\<close>

text \<open>The address that \<open>handleAddressInput\<close> stores for an accepted text.\<close>

definition address_of :: "string \<Rightarrow> PhysicalAddress" where
  "address_of t =
     (let parts = map trim (split_on CHR ''|'' t) in
      \<lparr>addr_name = parts ! 0, line1 = parts ! 1, line2 = None, city = parts ! 2,
       addr_state = Some (parts ! 3), postalCode = parts ! 4,
       country = toUpperCase (parts ! 5)\<rparr>)"



text \<open>
  The bot hands every text message to \<open>handleCheckoutMessage\<close>, one after the other;
  each message meets the world of its arrival.
\<close>

fun run_messages :: "bot_state \<Rightarrow> (world \<times> message) list \<Rightarrow> bot_state \<times> effect list" where
  "run_messages st [] = (st, [])"
| "run_messages st ((w, msg) # rest) =
     (case handleCheckoutMessage w st msg of
        (handled, st', effs) \<Rightarrow>
          (case run_messages st' rest of
             (st'', effs') \<Rightarrow> (st'', effs @ effs')))"

text \<open>
  The two kinds of input that the checkout accepts, in the words of the specification:
  a text that, trimmed, matches the email expression, and a text that, trimmed and split
  at the pipes, has at least six fields of which the first six are not empty after
  trimming and the sixth is ``US'' in upper case.
\<close>

definition accepted_email :: "string \<Rightarrow> bool" where
  "accepted_email t = matches emailRegex (trim t)"

definition accepted_address :: "string \<Rightarrow> bool" where
  "accepted_address t =
     (let parts = map trim (split_on CHR ''|'' (trim t)) in
      6 \<le> length parts
      \<and> parts ! 0 \<noteq> [] \<and> parts ! 1 \<noteq> [] \<and> parts ! 2 \<noteq> [] \<and> parts ! 3 \<noteq> []
      \<and> parts ! 4 \<noteq> [] \<and> parts ! 5 \<noteq> []
      \<and> toUpperCase (parts ! 5) = ''US'')"

definition email_from :: "int \<Rightarrow> message \<Rightarrow> bool" where
  "email_from userId msg =
     (from_id msg = Some userId
      \<and> (case msg_text msg of None \<Rightarrow> False | Some t \<Rightarrow> accepted_email t))"

definition address_from :: "int \<Rightarrow> message \<Rightarrow> bool" where
  "address_from userId msg =
     (from_id msg = Some userId
      \<and> (case msg_text msg of None \<Rightarrow> False | Some t \<Rightarrow> accepted_address t))"

fun address_later :: "int \<Rightarrow> message list \<Rightarrow> bool" where
  "address_later userId [] = False"
| "address_later userId (msg # rest) =
     (address_from userId msg \<or> address_later userId rest)"

fun email_then_address :: "int \<Rightarrow> message list \<Rightarrow> bool" where
  "email_then_address userId [] = False"
| "email_then_address userId (msg # rest) =
     ((email_from userId msg \<and> address_later userId rest)
      \<or> email_then_address userId rest)"


section \<open>Concrete scenarios\<close>

text \<open>
  A product, an address, orders as the provider may return them, a user with a wallet
  and worlds built from the provider's answers.  They are the inputs at which the
  properties below are evaluated.
\<close>

definition scenario_product :: AmazonProduct where
  "scenario_product =
     \<lparr>title = ''Headphones'', price = ''19.99'',
      amazonUrl = ''https://www.amazon.com/dp/B000000001'',
      imageUrl = None, description = None\<rparr>"

definition scenario_address :: PhysicalAddress where
  "scenario_address =
     \<lparr>addr_name = ''John Doe'', line1 = ''123 Main St'', line2 = None, city = ''Austin'',
      addr_state = Some ''TX'', postalCode = ''73301'', country = ''US''\<rparr>"

definition scenario_order :: "string \<Rightarrow> string option \<Rightarrow> OrderResponse" where
  "scenario_order status transaction =
     \<lparr>response_order =
        \<lparr>orderId = ''order-1'', phase = ''payment'',
         order_quote = \<lparr>quote_status = ''valid'',
                         totalPrice = \<lparr>amount = ''19.99'', currency = ''usdc''\<rparr>\<rparr>,
         payment = \<lparr>payment_status = status, payment_method = ''base-sepolia'',
                     payment_currency = ''usdc'',
                     preparation = Some \<lparr>chain = Some ''base-sepolia'',
                                          payerAddress = Some ''0xabc'',
                                          serializedTransaction = transaction\<rparr>\<rparr>\<rparr>,
      orderClientSecret = None\<rparr>"

definition scenario_signable :: OrderResponse where
  "scenario_signable = scenario_order ''awaiting-payment'' (Some ''0xdeadbeef'')"

definition scenario_unsigned :: OrderResponse where
  "scenario_unsigned = scenario_order ''completed'' None"

definition scenario_unfunded :: OrderResponse where
  "scenario_unfunded = scenario_order ''crypto-payer-insufficient-funds'' (Some ''0xdeadbeef'')"

definition scenario_not_found :: AxiosError where
  "scenario_not_found =
     \<lparr>err_response = Some \<lparr>err_status = 400, err_statusText = ''Bad Request'',
                            err_data_message = Some ''Product not found''\<rparr>,
      axios_message = ''Request failed with status code 400''\<rparr>"

definition scenario_user :: "string option \<Rightarrow> WalletUser" where
  "scenario_user mail =
     \<lparr>wallet_userId = 7, telegramUsername = None, firstName = None, wallet_email = mail,
      crossmintUserId = Some ''cm-7'', walletAddress = Some ''0xabc'',
      walletStatus = created, authToken = Some ''jwt'', createdAt = 0, lastActivity = 0\<rparr>"

definition scenario_state :: "string option \<Rightarrow> bot_state" where
  "scenario_state mail =
     \<lparr>userSessions = Map.empty, walletUsers = Map.empty(7 \<mapsto> scenario_user mail)\<rparr>"

definition scenario_session :: "checkout_step \<Rightarrow> UserSession" where
  "scenario_session s =
     \<lparr>session_userId = 7, selectedProduct = Some scenario_product,
      email = Some ''john@example.com'', physicalAddress = Some scenario_address,
      step = s, productIndex = Some 2\<rparr>"

definition scenario_world ::
  "order_post \<Rightarrow> order_post \<Rightarrow> DelegatedSigner list fetch_result \<Rightarrow> world" where
  "scenario_world first_answer later_answers signers =
     \<lparr>serverApiKey = ''sk_staging'', webAppUrlValid = True,
      authUrl = (\<lambda>u. ''https://app.example/auth''),
      topUpUrl = (\<lambda>u. ''https://app.example/topup''),
      signers_endpoint = (\<lambda>address. signers),
      orders_endpoint = (\<lambda>i request. if i = 0 then first_answer else later_answers),
      transactions_endpoint = (\<lambda>address transaction chainName. TxResolved 201 (Some ''tx-1'')),
      balances_endpoint = (\<lambda>address. Some 1)\<rparr>"

definition scenario_steady :: "order_post \<Rightarrow> DelegatedSigner list fetch_result \<Rightarrow> world" where
  "scenario_steady answer signers = scenario_world answer answer signers"

definition scenario_text :: "string \<Rightarrow> message" where
  "scenario_text t = \<lparr>from_id = Some 7, chat_id = 70, msg_text = Some t\<rparr>"


definition scenario_inputs :: "world \<Rightarrow> (world \<times> message) list" where
  "scenario_inputs w =
     [(w, scenario_text ''john at example''),
      (w, scenario_text '' john@example.com ''),
      (w, scenario_text ''John Doe|123 Main St|Austin||73301|CA''),
      (w, scenario_text ''John Doe | 123 Main St | Austin | TX | 73301 | us'')]"

definition scenario_opened :: "string option \<Rightarrow> checkout_step \<Rightarrow> bot_state" where
  "scenario_opened mail s =
     (scenario_state mail)\<lparr>userSessions :=
        Map.empty(7 \<mapsto> (scenario_session s)\<lparr>email := mail, physicalAddress := None\<rparr>)\<rparr>"


section \<open>Properties of the ProductCache\<close>

lemmas scenario_orders =
  scenario_signable_def scenario_unsigned_def scenario_unfunded_def scenario_order_def

lemmas scenario_worlds = scenario_steady_def scenario_world_def


lemma CACHE_DURATION_two_hours: "CACHE_DURATION = 7200000"
  by (simp add: CACHE_DURATION_def)

lemma getCachedSearchResults_absent:
  "searchCache userId = None \<Longrightarrow>
   getCachedSearchResults now searchCache userId = (None, searchCache)"
  by (simp add: getCachedSearchResults_def)

lemma getCachedSearchResults_expired:
  "searchCache userId = Some cache \<Longrightarrow> now - timestamp cache > CACHE_DURATION \<Longrightarrow>
   getCachedSearchResults now searchCache userId = (None, searchCache(userId := None))"
  by (simp add: getCachedSearchResults_def)

lemma getCachedSearchResults_live:
  "searchCache userId = Some cache \<Longrightarrow> \<not> now - timestamp cache > CACHE_DURATION \<Longrightarrow>
   getCachedSearchResults now searchCache userId
     = (Some (products cache, query cache), searchCache)"
  by (simp add: getCachedSearchResults_def)

lemma cacheSearchResults_own_entry:
  "cacheSearchResults t_stamp t_clean searchCache userId ps q userId
     = (if t_clean - t_stamp > CACHE_DURATION then None
        else Some \<lparr>products = ps, timestamp = t_stamp, query = q\<rparr>)"
  by (simp add: cacheSearchResults_def)

text \<open>
  Claim C7.  For every user and every integer index, \<open>getCachedProduct\<close> returns
  \<open>null\<close> (here \<open>None\<close>; the function has no error result at all) when the user has
  no cache entry, when the entry has expired, and when the index is below zero or not
  below the number of cached products; for an index within the bounds of a live entry
  it returns the product at that position.
\<close>

theorem getCachedProduct_by_index:
  "(searchCache userId = None \<longrightarrow>
      fst (getCachedProduct now searchCache userId index) = None)
   \<and> (\<forall>cache. searchCache userId = Some cache \<and> now - timestamp cache > CACHE_DURATION \<longrightarrow>
      fst (getCachedProduct now searchCache userId index) = None)
   \<and> (\<forall>cache. searchCache userId = Some cache
         \<and> (index < 0 \<or> int (length (products cache)) - 1 < index) \<longrightarrow>
      fst (getCachedProduct now searchCache userId index) = None)
   \<and> (\<forall>cache. searchCache userId = Some cache \<and> \<not> now - timestamp cache > CACHE_DURATION
         \<and> 0 \<le> index \<and> index \<le> int (length (products cache)) - 1 \<longrightarrow>
      fst (getCachedProduct now searchCache userId index) = Some (products cache ! nat index))"
  by (auto simp: getCachedProduct_def getCachedSearchResults_def)

theorem getCachedProduct_by_index_witness:
  "fst (getCachedProduct 1000 (Map.empty(42 \<mapsto>
      \<lparr>products = [''p0'', ''p1'', ''p2'', ''p3'', ''p4''], timestamp = 0,
       query = ''headphones''\<rparr>)) 42 2) = Some ''p2''
   \<and> fst (getCachedProduct 1000 (Map.empty(42 \<mapsto>
      \<lparr>products = [''p0'', ''p1'', ''p2'', ''p3'', ''p4''], timestamp = 0,
       query = ''headphones''\<rparr>)) 42 9) = None
   \<and> fst (getCachedProduct 1000 (Map.empty(42 \<mapsto>
      \<lparr>products = [''p0'', ''p1'', ''p2'', ''p3'', ''p4''], timestamp = 0,
       query = ''headphones''\<rparr>)) 7 0) = None"
  using getCachedProduct_by_index
    [of "Map.empty(42 \<mapsto> \<lparr>products = [''p0'', ''p1'', ''p2'', ''p3'', ''p4''],
          timestamp = 0, query = ''headphones''\<rparr>)" 42 1000 2]
    getCachedProduct_by_index
    [of "Map.empty(42 \<mapsto> \<lparr>products = [''p0'', ''p1'', ''p2'', ''p3'', ''p4''],
          timestamp = 0, query = ''headphones''\<rparr>)" 42 1000 9]
    getCachedProduct_by_index
    [of "Map.empty(42 \<mapsto> \<lparr>products = [''p0'', ''p1'', ''p2'', ''p3'', ''p4''],
          timestamp = 0, query = ''headphones''\<rparr>)" 7 1000 0]
  by (simp add: CACHE_DURATION_def)

text \<open>
  Claim C8.  The cache duration is two hours.  Once more than that has passed since
  the stamp of a user's entry, \<open>getCachedSearchResults\<close> returns \<open>null\<close> and the
  cache it leaves behind no longer holds the entry; this is so for any entry found in
  the cache, and in particular for the entry that \<open>cacheSearchResults\<close> stored, whether
  or not a store-time clean-up removed it before.
\<close>

theorem getCachedSearchResults_expires:
  "CACHE_DURATION = 2 * 60 * 60 * 1000
   \<and> (\<forall>cache. searchCache userId = Some cache \<and> now - timestamp cache > CACHE_DURATION \<longrightarrow>
        getCachedSearchResults now searchCache userId = (None, searchCache(userId := None)))
   \<and> (now - t_stamp > CACHE_DURATION \<longrightarrow>
        getCachedSearchResults now
            (cacheSearchResults t_stamp t_clean searchCache userId ps q) userId
          = (None, (cacheSearchResults t_stamp t_clean searchCache userId ps q)(userId := None))
        \<and> snd (getCachedSearchResults now
            (cacheSearchResults t_stamp t_clean searchCache userId ps q) userId) userId = None)"
proof (intro conjI allI impI)
  show "CACHE_DURATION = 2 * 60 * 60 * 1000"
    by (simp add: CACHE_DURATION_def)
next
  fix cache
  assume "searchCache userId = Some cache \<and> now - timestamp cache > CACHE_DURATION"
  then show "getCachedSearchResults now searchCache userId = (None, searchCache(userId := None))"
    by (simp add: getCachedSearchResults_expired)
next
  let ?c = "cacheSearchResults t_stamp t_clean searchCache userId ps q"
  assume late: "now - t_stamp > CACHE_DURATION"
  show res: "getCachedSearchResults now ?c userId = (None, ?c(userId := None))"
  proof (cases "t_clean - t_stamp > CACHE_DURATION")
    case True
    then have none: "?c userId = None"
      by (simp add: cacheSearchResults_own_entry)
    then have "?c(userId := None) = ?c"
      by (simp add: fun_upd_idem)
    with none show ?thesis
      by (simp add: getCachedSearchResults_absent)
  next
    case False
    then have "?c userId = Some \<lparr>products = ps, timestamp = t_stamp, query = q\<rparr>"
      by (simp add: cacheSearchResults_own_entry)
    with late show ?thesis
      by (simp add: getCachedSearchResults_expired)
  qed
  show "snd (getCachedSearchResults now ?c userId) userId = None"
    by (simp add: res)
qed

theorem getCachedSearchResults_expires_witness:
  "getCachedSearchResults 7200001
      (cacheSearchResults 0 0 Map.empty 42 [''p0'', ''p1''] ''headphones'') 42
     = (None, (cacheSearchResults 0 0 Map.empty 42 [''p0'', ''p1''] ''headphones'')(42 := None))
   \<and> cacheSearchResults 0 0 Map.empty 42 [''p0'', ''p1''] ''headphones'' 42
     = Some \<lparr>products = [''p0'', ''p1''], timestamp = 0, query = ''headphones''\<rparr>
   \<and> fst (getCachedSearchResults 7200000
      (cacheSearchResults 0 0 Map.empty 42 [''p0'', ''p1''] ''headphones'') 42)
     = Some ([''p0'', ''p1''], ''headphones'')"
  using getCachedSearchResults_expires
    [of "Map.empty :: string SearchResultCache" 42 7200001 0 0 "[''p0'', ''p1'']" "''headphones''"]
  by (simp add: CACHE_DURATION_def cacheSearchResults_def getCachedSearchResults_def)


section \<open>The regular expression matcher decides the language\<close>

lemma nullable_iff: "nullable r \<longleftrightarrow> [] \<in> lang r"
  by (induction r) (auto intro: star.intros)

lemma star_cons_split:
  assumes "w \<in> star A" "w = c # cs"
  shows "\<exists>u v. c # u \<in> A \<and> v \<in> star A \<and> cs = u @ v"
  using assms
proof (induction arbitrary: c cs rule: star.induct)
  case star_empty
  then show ?case by simp
next
  case (star_step u v)
  show ?case
  proof (cases u)
    case Nil
    with star_step show ?thesis by simp
  next
    case (Cons a u')
    with star_step.prems star_step.hyps show ?thesis by auto
  qed
qed

lemma lang_SeqI: "u \<in> lang r \<Longrightarrow> v \<in> lang s \<Longrightarrow> u @ v \<in> lang (Seq r s)"
  by auto

lemma deriv_lang: "cs \<in> lang (deriv c r) \<longleftrightarrow> c # cs \<in> lang r"
proof (induction r arbitrary: cs)
  case (Seq r s)
  show ?case
  proof
    assume d: "cs \<in> lang (deriv c (Seq r s))"
    have left: "c # cs \<in> lang (Seq r s)" if "cs \<in> lang (Seq (deriv c r) s)"
    proof -
      from that obtain u v where "cs = u @ v" "u \<in> lang (deriv c r)" "v \<in> lang s"
        by auto
      then have "(c # u) @ v \<in> lang (Seq r s)" "c # cs = (c # u) @ v"
        using Seq.IH(1)[of u] lang_SeqI[of "c # u" r v s] by simp_all
      then show ?thesis by simp
    qed
    have right: "c # cs \<in> lang (Seq r s)" if "nullable r" "cs \<in> lang (deriv c s)"
    proof -
      from that have "[] \<in> lang r" "c # cs \<in> lang s"
        using nullable_iff[of r] Seq.IH(2)[of cs] by simp_all
      then have "[] @ (c # cs) \<in> lang (Seq r s)"
        by (rule lang_SeqI)
      then show ?thesis by simp
    qed
    from d left right show "c # cs \<in> lang (Seq r s)"
      by (cases "nullable r") auto
  next
    assume "c # cs \<in> lang (Seq r s)"
    then obtain u v where uv: "c # cs = u @ v" "u \<in> lang r" "v \<in> lang s" by auto
    show "cs \<in> lang (deriv c (Seq r s))"
    proof (cases u)
      case Nil
      with uv Seq nullable_iff[of r] show ?thesis by auto
    next
      case (Cons a u')
      with uv Seq show ?thesis by auto
    qed
  qed
next
  case (Star r)
  show ?case
  proof
    assume "cs \<in> lang (deriv c (Star r))"
    then obtain u v where "cs = u @ v" "c # u \<in> lang r" "v \<in> star (lang r)"
      using Star by auto
    then show "c # cs \<in> lang (Star r)"
      using star_step[of "c # u" "lang r" v] by simp
  next
    assume "c # cs \<in> lang (Star r)"
    then show "cs \<in> lang (deriv c (Star r))"
      using star_cons_split[of "c # cs" "lang r" c cs] Star by auto
  qed
qed auto

lemma matches_lang: "matches r w \<longleftrightarrow> w \<in> lang r"
  by (induction w arbitrary: r) (simp_all add: nullable_iff deriv_lang)


text \<open>
  What the email expression accepts: a non-empty local part, an at sign, a non-empty
  domain, a dot and a non-empty rest, none of them with white space or a second at
  sign.
\<close>

lemma star_Atom: "star (lang (Atom p)) = {u. \<forall>c \<in> set u. p c}"
proof (intro set_eqI iffI)
  fix u
  assume "u \<in> star (lang (Atom p))"
  then show "u \<in> {u. \<forall>c \<in> set u. p c}"
    by (induction rule: star.induct) auto
next
  fix u
  assume "u \<in> {u. \<forall>c \<in> set u. p c}"
  then show "u \<in> star (lang (Atom p))"
  proof (induction u)
    case Nil
    show ?case by (rule star_empty)
  next
    case (Cons c cs)
    then have "[c] \<in> lang (Atom p)" "cs \<in> star (lang (Atom p))" by simp_all
    then have "[c] @ cs \<in> star (lang (Atom p))" by (rule star_step)
    then show ?case by simp
  qed
qed

lemma lang_Plus_Atom: "lang (Plus (Atom p)) = {u. u \<noteq> [] \<and> (\<forall>c \<in> set u. p c)}"
proof (intro set_eqI iffI)
  fix u
  assume "u \<in> lang (Plus (Atom p))"
  then obtain a b where ab: "u = a @ b" "a \<in> lang (Atom p)" "b \<in> star (lang (Atom p))"
    unfolding Plus_def lang.simps(5,6) by blast
  from ab(3) have "\<forall>c \<in> set b. p c"
    unfolding star_Atom by simp
  with ab(1,2) show "u \<in> {u. u \<noteq> [] \<and> (\<forall>c \<in> set u. p c)}"
    by auto
next
  fix u
  assume "u \<in> {u. u \<noteq> [] \<and> (\<forall>c \<in> set u. p c)}"
  then obtain c cs where u: "u = c # cs" "p c" "\<forall>x \<in> set cs. p x"
    by (cases u) auto
  from u(3) have "cs \<in> star (lang (Atom p))"
    unfolding star_Atom by simp
  moreover from u(2) have "[c] \<in> lang (Atom p)"
    by simp
  ultimately have "[c] @ cs \<in> lang (Seq (Atom p) (Star (Atom p)))"
    unfolding lang.simps(5,6) by blast
  then show "u \<in> lang (Plus (Atom p))"
    by (simp add: Plus_def u(1))
qed

lemma emailRegex_lang:
  "matches emailRegex t \<longleftrightarrow>
     (\<exists>a b c.
        t = a @ [CHR ''@''] @ b @ [CHR ''.''] @ c
        \<and> a \<in> {u. u \<noteq> [] \<and> (\<forall>x \<in> set u. not_space_or_at x)}
        \<and> b \<in> {u. u \<noteq> [] \<and> (\<forall>x \<in> set u. not_space_or_at x)}
        \<and> c \<in> {u. u \<noteq> [] \<and> (\<forall>x \<in> set u. not_space_or_at x)})"
proof -
  have at: "lang (Lit x) = {[x]}" for x
    unfolding Lit_def lang.simps(3) by blast
  show ?thesis
    unfolding matches_lang emailRegex_def lang.simps(5) lang_Plus_Atom at
    by blast
qed

lemma emailRegex_matches:
  "matches emailRegex t \<longleftrightarrow>
     (\<exists>a b c.
        t = a @ [CHR ''@''] @ b @ [CHR ''.''] @ c
        \<and> a \<noteq> [] \<and> (\<forall>x \<in> set a. not_space_or_at x)
        \<and> b \<noteq> [] \<and> (\<forall>x \<in> set b. not_space_or_at x)
        \<and> c \<noteq> [] \<and> (\<forall>x \<in> set c. not_space_or_at x))"
  unfolding emailRegex_lang mem_Collect_eq conj_assoc
  by (rule refl)


section \<open>Lemmas about the OrderGateway\<close>

lemma createOrderWithRetry_loop_Cons:
  "createOrderWithRetry_loop w orderRequest i (locator # rest) lastError =
     (case orders_endpoint w i (orderRequest\<lparr>lineItems := [\<lparr>productLocator = locator\<rparr>]\<rparr>) of
        OrderResolved (Some parsed) \<Rightarrow>
          (Inr parsed, [PostOrder (orderRequest\<lparr>lineItems := [\<lparr>productLocator = locator\<rparr>]\<rparr>)])
      | OrderResolved None \<Rightarrow>
          (fst (createOrderWithRetry_loop w orderRequest (Suc i) rest (Some ZodError)),
           PostOrder (orderRequest\<lparr>lineItems := [\<lparr>productLocator = locator\<rparr>]\<rparr>)
             # snd (createOrderWithRetry_loop w orderRequest (Suc i) rest (Some ZodError)))
      | OrderRejected error \<Rightarrow>
          if \<not> product_not_found error
          then (Inl (Axios error),
                [PostOrder (orderRequest\<lparr>lineItems := [\<lparr>productLocator = locator\<rparr>]\<rparr>)])
          else
            (fst (createOrderWithRetry_loop w orderRequest (Suc i) rest (Some (Axios error))),
             PostOrder (orderRequest\<lparr>lineItems := [\<lparr>productLocator = locator\<rparr>]\<rparr>)
               # snd (createOrderWithRetry_loop w orderRequest (Suc i) rest
                        (Some (Axios error)))))"
  by (simp add: Let_def split: prod.splits order_post.splits option.splits)

declare createOrderWithRetry_loop.simps(2) [simp del]

lemma createOrderWithRetry_loop_length:
  "length (snd (createOrderWithRetry_loop w orderRequest i variations lastError))
     \<le> length variations"
proof (induction variations arbitrary: i lastError)
  case Nil
  then show ?case by simp
next
  case (Cons locator rest)
  have "length (snd (createOrderWithRetry_loop w orderRequest (Suc i) rest e)) \<le> length rest"
    for e
    by (rule Cons.IH)
  then show ?case
    by (auto simp: createOrderWithRetry_loop_Cons split: order_post.splits option.splits)
qed

lemma createOrderWithRetry_loop_requests:
  "snd (createOrderWithRetry_loop w orderRequest i variations lastError)
     = map (\<lambda>locator. PostOrder (orderRequest\<lparr>lineItems := [\<lparr>productLocator = locator\<rparr>]\<rparr>))
         (take (length (snd (createOrderWithRetry_loop w orderRequest i variations lastError)))
            variations)"
proof (induction variations arbitrary: i lastError)
  case Nil
  then show ?case by simp
next
  case (Cons locator rest)
  show ?case
    using Cons.IH[of "Suc i" "Some ZodError"] Cons.IH[of "Suc i" "Some (Axios _)"]
    by (auto simp: createOrderWithRetry_loop_Cons split: order_post.splits option.splits)
qed

lemma createOrderWithRetry_loop_abort:
  assumes "orders_endpoint w i (orderRequest\<lparr>lineItems := [\<lparr>productLocator = locator\<rparr>]\<rparr>)
             = OrderRejected error"
    and "\<not> product_not_found error"
  shows "createOrderWithRetry_loop w orderRequest i (locator # rest) lastError
           = (Inl (Axios error),
              [PostOrder (orderRequest\<lparr>lineItems := [\<lparr>productLocator = locator\<rparr>]\<rparr>)])"
  using assms by (simp add: createOrderWithRetry_loop_Cons)

lemma createOrderWithRetry_loop_next:
  assumes "orders_endpoint w i (orderRequest\<lparr>lineItems := [\<lparr>productLocator = locator\<rparr>]\<rparr>)
             = OrderRejected error"
    and "product_not_found error"
  shows "createOrderWithRetry_loop w orderRequest i (locator # rest) lastError
           = (fst (createOrderWithRetry_loop w orderRequest (Suc i) rest (Some (Axios error))),
              PostOrder (orderRequest\<lparr>lineItems := [\<lparr>productLocator = locator\<rparr>]\<rparr>)
                # snd (createOrderWithRetry_loop w orderRequest (Suc i) rest (Some (Axios error))))"
  using assms by (simp add: createOrderWithRetry_loop_Cons)

lemma createOrderWithRetry_loop_unparsed:
  assumes "orders_endpoint w i (orderRequest\<lparr>lineItems := [\<lparr>productLocator = locator\<rparr>]\<rparr>)
             = OrderResolved None"
  shows "createOrderWithRetry_loop w orderRequest i (locator # rest) lastError
           = (fst (createOrderWithRetry_loop w orderRequest (Suc i) rest (Some ZodError)),
              PostOrder (orderRequest\<lparr>lineItems := [\<lparr>productLocator = locator\<rparr>]\<rparr>)
                # snd (createOrderWithRetry_loop w orderRequest (Suc i) rest (Some ZodError)))"
  using assms by (simp add: createOrderWithRetry_loop_Cons)

lemma createOrderWithRetry_loop_success:
  assumes "orders_endpoint w i (orderRequest\<lparr>lineItems := [\<lparr>productLocator = locator\<rparr>]\<rparr>)
             = OrderResolved (Some parsed)"
  shows "createOrderWithRetry_loop w orderRequest i (locator # rest) lastError
           = (Inr parsed,
              [PostOrder (orderRequest\<lparr>lineItems := [\<lparr>productLocator = locator\<rparr>]\<rparr>)])"
  using assms by (simp add: createOrderWithRetry_loop_Cons)

lemma createOrderWithRetry_loop_PostOrder:
  "e \<in> set (snd (createOrderWithRetry_loop w orderRequest i variations lastError))
     \<Longrightarrow> \<exists>request. e = PostOrder request"
  using createOrderWithRetry_loop_requests[of w orderRequest i variations lastError]
  by (metis (no_types, lifting) imageE list.set_map)

lemma getProductLocatorVariations_length:
  "length (getProductLocatorVariations asin url) = 5"
  by (simp add: getProductLocatorVariations_def)

lemma extractProductLocator_asin:
  "asinMatch url = Some asin \<Longrightarrow> extractProductLocator url = Some (''amazon:'' @ asin)"
  by (simp add: extractProductLocator_def)

lemma check_order_response_insufficient:
  "payment_status (payment (response_order r)) = ''crypto-payer-insufficient-funds''
   \<Longrightarrow> check_order_response r = Inl (Error ''Insufficient USDC funds in wallet'')"
  by (simp add: check_order_response_def Let_def)

lemma check_order_response_no_transaction:
  "payment_status (payment (response_order r)) \<noteq> ''crypto-payer-insufficient-funds''
   \<Longrightarrow> quote_status (order_quote (response_order r)) \<noteq> ''requires-physical-address''
   \<Longrightarrow> \<not> truthy (order_serializedTransaction (response_order r))
   \<Longrightarrow> check_order_response r
         = Inl (Error (''No serialized transaction found for order. ''
                       @ ''This item may not be available for purchase.''))"
  by (simp add: check_order_response_def Let_def)

lemma check_order_response_Inr:
  "check_order_response r = Inr wo \<Longrightarrow>
     payment_status (payment (response_order r)) \<noteq> ''crypto-payer-insufficient-funds''
     \<and> quote_status (order_quote (response_order r)) \<noteq> ''requires-physical-address''
     \<and> truthy (order_serializedTransaction (response_order r))
     \<and> wo = \<lparr>validatedResponse = r, requiresTransaction = True,
              transaction_to_sign = or_else (order_serializedTransaction (response_order r)) []\<rparr>"
  by (auto simp: check_order_response_def Let_def split: if_splits)

lemma createWalletAmazonOrder_of_response:
  assumes "asinMatch (amazonUrl product) = Some asin"
    and "country a = ''US''"
    and "truthy (addr_state a)"
    and "createOrderWithRetry w (make_orderRequest (''amazon:'' @ asin) userEmail address a)
           (getProductLocatorVariations asin (amazonUrl product)) = (Inr r, effs)"
  shows "createWalletAmazonOrder w product userEmail address a
           = ((case check_order_response r of
                 Inl error \<Rightarrow> Inl (createWalletAmazonOrder_catch error)
               | Inr wo \<Rightarrow> Inr wo), effs)"
  using assms
  by (simp add: createWalletAmazonOrder_def createWalletAmazonOrder_try_def
        extractProductLocator_asin split: sum.splits)

lemma createWalletAmazonOrder_Inr:
  assumes "createWalletAmazonOrder w product userEmail address a = (Inr wo, effs)"
  shows "requiresTransaction wo \<and> transaction_to_sign wo \<noteq> []
         \<and> truthy (order_serializedTransaction (response_order (validatedResponse wo)))
         \<and> payment_status (payment (response_order (validatedResponse wo)))
              \<noteq> ''crypto-payer-insufficient-funds''
         \<and> quote_status (order_quote (response_order (validatedResponse wo)))
              \<noteq> ''requires-physical-address''"
proof -
  from assms obtain r where "check_order_response r = Inr wo"
    by (auto simp: createWalletAmazonOrder_def createWalletAmazonOrder_try_def
          split: option.splits if_splits prod.splits sum.splits)
  from check_order_response_Inr[OF this] show ?thesis
    by (auto simp: truthy_def or_else_def split: option.splits)
qed

lemma createWalletAmazonOrder_effects:
  "snd (createWalletAmazonOrder w product userEmail address a) = []
   \<or> (\<exists>request variations.
         snd (createWalletAmazonOrder w product userEmail address a)
           = snd (createOrderWithRetry w request variations))"
  by (auto simp: createWalletAmazonOrder_def createWalletAmazonOrder_try_def
        split: option.splits if_splits prod.splits sum.splits) (metis snd_conv)+

lemma createWalletAmazonOrder_PostOrder:
  assumes "e \<in> set (snd (createWalletAmazonOrder w product userEmail address a))"
  shows "\<exists>request. e = PostOrder request"
  using assms createWalletAmazonOrder_effects[of w product userEmail address a]
    createOrderWithRetry_loop_PostOrder[of e w _ 0 _ None]
  by (auto simp: createOrderWithRetry_def)


lemma createOrderWithRetry_calls_bounded:
  "length (snd (createOrderWithRetry w orderRequest (getProductLocatorVariations asin url)))
     \<le> 5"
  using createOrderWithRetry_loop_length
          [of w orderRequest 0 "getProductLocatorVariations asin url" None]
  by (simp add: createOrderWithRetry_def getProductLocatorVariations_length)

lemma createOrderWithRetry_loop_exhausted:
  "createOrderWithRetry_loop w orderRequest i [] (Some error) = (Inl error, [])"
  by simp


section \<open>Properties of the DelegationChecker\<close>

text \<open>
  Claim C9.  \<open>isDelegatedToBotSigner\<close> returns a boolean in every case (an error
  thrown inside it is caught and becomes \<open>false\<close>).  It returns \<open>true\<close> exactly when
  the user has a wallet address, the API key is configured, the provider answers the
  request for the wallet's signers with a success status and a list, and that list
  holds the bot's signer address under comparison of the lower-cased strings.  It
  returns \<open>false\<close> when the request is rejected, when the status is not a success, when
  the body is not JSON, when the API key is missing, when the user or the wallet address
  is missing, and when the address is not in the list.
\<close>

theorem isDelegatedToBotSigner_exactly:
  "(fst (isDelegatedToBotSigner w st userId)
      = (\<exists>user address status delegatedSigners.
           walletUsers st userId = Some user
           \<and> walletAddress user = Some address \<and> address \<noteq> []
           \<and> serverApiKey w \<noteq> []
           \<and> signers_endpoint w address = FetchResponse status (Some delegatedSigners)
           \<and> response_ok status
           \<and> (\<exists>s \<in> set delegatedSigners.
                 toLowerCase (signer s) = toLowerCase BOT_SIGNER_ADDRESS)))
   \<and> (\<forall>error effs. isDelegatedToBotSigner_try w st userId = (Inl error, effs) \<longrightarrow>
         isDelegatedToBotSigner w st userId = (False, effs))
   \<and> (walletUsers st userId = None \<longrightarrow> \<not> fst (isDelegatedToBotSigner w st userId))
   \<and> (\<forall>user. walletUsers st userId = Some user \<and> \<not> truthy (walletAddress user) \<longrightarrow>
         \<not> fst (isDelegatedToBotSigner w st userId))
   \<and> (serverApiKey w = [] \<longrightarrow> \<not> fst (isDelegatedToBotSigner w st userId))
   \<and> (\<forall>user address. walletUsers st userId = Some user \<and> walletAddress user = Some address
         \<and> (signers_endpoint w address = FetchRejected
             \<or> (\<exists>status body. signers_endpoint w address = FetchResponse status body
                   \<and> (\<not> response_ok status \<or> body = None))) \<longrightarrow>
         \<not> fst (isDelegatedToBotSigner w st userId))
   \<and> (\<forall>user address status delegatedSigners.
         walletUsers st userId = Some user \<and> walletAddress user = Some address
         \<and> signers_endpoint w address = FetchResponse status (Some delegatedSigners)
         \<and> (\<forall>s \<in> set delegatedSigners.
               toLowerCase (signer s) \<noteq> toLowerCase BOT_SIGNER_ADDRESS) \<longrightarrow>
         \<not> fst (isDelegatedToBotSigner w st userId))"
proof -
  have exactly: "fst (isDelegatedToBotSigner w st userId)
      = (\<exists>user address status delegatedSigners.
           walletUsers st userId = Some user
           \<and> walletAddress user = Some address \<and> address \<noteq> []
           \<and> serverApiKey w \<noteq> []
           \<and> signers_endpoint w address = FetchResponse status (Some delegatedSigners)
           \<and> response_ok status
           \<and> (\<exists>s \<in> set delegatedSigners.
                 toLowerCase (signer s) = toLowerCase BOT_SIGNER_ADDRESS))"
    by (auto simp: isDelegatedToBotSigner_def isDelegatedToBotSigner_try_def getUser_def
          truthy_def or_else_def list_ex_iff Let_def
          split: option.splits fetch_result.splits if_splits)
  have caught: "\<forall>error effs. isDelegatedToBotSigner_try w st userId = (Inl error, effs) \<longrightarrow>
         isDelegatedToBotSigner w st userId = (False, effs)"
    by (simp add: isDelegatedToBotSigner_def)
  show ?thesis
    unfolding exactly using caught by (auto simp: truthy_def)
qed

theorem isDelegatedToBotSigner_exactly_witness:
  "fst (isDelegatedToBotSigner
          (scenario_steady (OrderResolved None)
             (FetchResponse 200
                (Some [\<lparr>signer = ''0xother''\<rparr>,
                       \<lparr>signer = ''0x9af659ef26583c0793c35c52e076fbea6486e31d''\<rparr>])))
          (scenario_state None) 7)
   \<and> \<not> fst (isDelegatedToBotSigner
          (scenario_steady (OrderResolved None) FetchRejected)
          (scenario_state None) 7)"
proof -
  let ?listed = "[\<lparr>signer = ''0xother''\<rparr>,
                  \<lparr>signer = ''0x9af659ef26583c0793c35c52e076fbea6486e31d''\<rparr>]"
  let ?w = "scenario_steady (OrderResolved None) (FetchResponse 200 (Some ?listed))"
  let ?down = "scenario_steady (OrderResolved None) FetchRejected"
  have same: "toLowerCase (signer \<lparr>signer = ''0x9af659ef26583c0793c35c52e076fbea6486e31d''\<rparr>)
      = toLowerCase BOT_SIGNER_ADDRESS"
    by code_simp
  have user: "walletUsers (scenario_state None) 7 = Some (scenario_user None)"
    by (simp add: scenario_state_def)
  have address: "walletAddress (scenario_user None) = Some ''0xabc''"
    by (simp add: scenario_user_def)
  have key: "serverApiKey ?w \<noteq> []"
    by (simp add: scenario_worlds)
  have answer: "signers_endpoint ?w ''0xabc'' = FetchResponse 200 (Some ?listed)"
    by (simp add: scenario_worlds)
  have ok: "response_ok 200"
    by (simp add: response_ok_def)
  have listed: "\<exists>s \<in> set ?listed. toLowerCase (signer s) = toLowerCase BOT_SIGNER_ADDRESS"
    using same by simp
  have delegated: "fst (isDelegatedToBotSigner ?w (scenario_state None) 7)"
    using isDelegatedToBotSigner_exactly[of ?w "scenario_state None" 7]
      user address key answer ok listed
    by blast
  have rejected: "signers_endpoint ?down ''0xabc'' = FetchRejected"
    by (simp add: scenario_worlds)
  have refused: "\<not> fst (isDelegatedToBotSigner ?down (scenario_state None) 7)"
    using isDelegatedToBotSigner_exactly[of ?down "scenario_state None" 7]
      user address rejected
    by blast
  from delegated refused show ?thesis by simp
qed


section \<open>Properties of the checkout message handler\<close>

text \<open>
  Claim C10.  When the sender's session is at the step \<open>product_selected\<close>,
  \<open>creating_order\<close> or \<open>completed\<close>, \<open>handleCheckoutMessage\<close> returns \<open>false\<close>, leaves
  both maps as they are and does nothing else: no message is sent, no request is made,
  the session is neither written nor deleted.
\<close>

theorem handleCheckoutMessage_other_steps:
  assumes "from_id msg = Some userId"
    and "userSessions st userId = Some session"
    and "step session = product_selected \<or> step session = creating_order
         \<or> step session = completed"
  shows "handleCheckoutMessage w st msg = (False, st, [])"
  using assms
  by (auto simp: handleCheckoutMessage_def Let_def split: option.splits)

theorem handleCheckoutMessage_other_steps_witness:
  "handleCheckoutMessage (scenario_steady (OrderResolved None) FetchRejected)
      ((scenario_state None)\<lparr>userSessions := Map.empty(7 \<mapsto> scenario_session creating_order)\<rparr>)
      (scenario_text ''john@example.com'')
     = (False,
        (scenario_state None)\<lparr>userSessions := Map.empty(7 \<mapsto> scenario_session creating_order)\<rparr>,
        [])"
proof -
  have sender: "from_id (scenario_text ''john@example.com'') = Some 7"
    by (simp add: scenario_text_def)
  have stored: "userSessions
      ((scenario_state None)\<lparr>userSessions := Map.empty(7 \<mapsto> scenario_session creating_order)\<rparr>) 7
        = Some (scenario_session creating_order)"
    by simp
  have at: "step (scenario_session creating_order) = product_selected
      \<or> step (scenario_session creating_order) = creating_order
      \<or> step (scenario_session creating_order) = completed"
    by (simp add: scenario_session_def)
  show ?thesis
    by (rule handleCheckoutMessage_other_steps[OF sender stored at])
qed

section \<open>Lemmas about order creation in the checkout handler\<close>

lemma signOrderTransaction_sent:
  "snd (signOrderTransaction w address transaction chainName)
     = [PostTransaction address transaction chainName]"
  by (simp add: signOrderTransaction_def split: tx_post.splits)

lemma createHeadlessOrder_try_thrown:
  assumes "selectedProduct session = Some product"
    and "truthy (email session)"
    and "physicalAddress session = Some a"
    and "getUser st userId = Some user"
    and "truthy (walletAddress user)"
    and "createWalletAmazonOrder w product (or_else (email session) [])
           (or_else (walletAddress user) []) a = (Inl thrown, effs)"
  shows "createHeadlessOrder_try w st chatId userId session
           = (Thrown thrown, Send chatId CreatingOrder # effs)"
  using assms by (simp add: createHeadlessOrder_try_def)

lemma createHeadlessOrder_try_signature:
  assumes "selectedProduct session = Some product"
    and "truthy (email session)"
    and "physicalAddress session = Some a"
    and "getUser st userId = Some user"
    and "truthy (walletAddress user)"
    and "createWalletAmazonOrder w product (or_else (email session) [])
           (or_else (walletAddress user) []) a = (Inr wo, effs)"
  shows "createHeadlessOrder_try w st chatId userId session
           = (Finished,
              (Send chatId CreatingOrder # effs)
              @ [Send chatId (ProcessingYourOrder (orderId (response_order (validatedResponse wo)))),
                 PostTransaction (or_else (walletAddress user) []) (transaction_to_sign wo)
                   (or_else (order_chain (response_order (validatedResponse wo)))
                      ''base-sepolia'')]
              @ (case fst (signOrderTransaction w (or_else (walletAddress user) [])
                             (transaction_to_sign wo)
                             (or_else (order_chain (response_order (validatedResponse wo)))
                                ''base-sepolia'')) of
                   SignSuccess transactionId \<Rightarrow>
                     [Send chatId (PaymentSuccessful
                        (orderId (response_order (validatedResponse wo))) transactionId),
                      StartOrderMonitoring (orderId (response_order (validatedResponse wo)))
                        userId]
                 | SignFailure failure \<Rightarrow> [Send chatId (PaymentFailed failure)]))"
proof -
  let ?ord = "response_order (validatedResponse wo)"
  from assms(6) obtain r where r: "check_order_response r = Inr wo"
    by (auto simp: createWalletAmazonOrder_def createWalletAmazonOrder_try_def
          split: option.splits if_splits prod.splits sum.splits)
  note facts = check_order_response_Inr[OF r]
  from facts have wo: "validatedResponse wo = r"
      "transaction_to_sign wo = or_else (order_serializedTransaction (response_order r)) []"
    by simp_all
  from facts have status: "or_else (Some (payment_status (payment ?ord))) ''pending''
       \<noteq> ''crypto-payer-insufficient-funds''"
    by (simp add: or_else_def wo)
  from facts have quote: "quote_status (order_quote ?ord) \<noteq> ''requires-physical-address''"
    and tx: "truthy (order_serializedTransaction ?ord)"
    by (simp_all add: wo)
  let ?address = "or_else (walletAddress user) []"
  let ?chain = "or_else (order_chain (response_order r)) ''base-sepolia''"
  let ?tx = "or_else (order_serializedTransaction (response_order r)) []"
  obtain res where signed:
    "signOrderTransaction w ?address ?tx ?chain = (res, [PostTransaction ?address ?tx ?chain])"
    using signOrderTransaction_sent[of w ?address ?tx ?chain]
    by (cases "signOrderTransaction w ?address ?tx ?chain") simp
  show ?thesis
    using assms status quote tx signed
    by (cases res) (simp_all add: createHeadlessOrder_try_def Let_def wo)
qed

declare str_includes.simps [simp del]

lemma insufficient_message_includes:
  "str_includes (''Unexpected error during order creation: ''
       @ error_toString (Error ''Insufficient USDC funds in wallet''))
     ''Insufficient USDC funds''"
  by code_simp

lemma no_transaction_message_excludes:
  "\<not> str_includes (''Unexpected error during order creation: ''
       @ error_toString (Error (''No serialized transaction found for order. ''
                       @ ''This item may not be available for purchase.'')))
     ''Insufficient USDC funds''"
  "\<not> str_includes (''Unexpected error during order creation: ''
       @ error_toString (Error (''No serialized transaction found for order. ''
                       @ ''This item may not be available for purchase.'')))
     ''US shipping addresses''"
  by code_simp+

lemma generateTopUpLink_with_wallet:
  "getUser st userId = Some user \<Longrightarrow> truthy (walletAddress user) \<Longrightarrow>
   generateTopUpLink w st userId
     = Inr (if webAppUrlValid w then Some (topUpUrl w userId) else None)"
  by (simp add: generateTopUpLink_def)


lemma createHeadlessOrder_try_cases:
  "createHeadlessOrder_try w st chatId userId session
      = (Thrown ''Missing required session data'', [])
   \<or> createHeadlessOrder_try w st chatId userId session
      = (Thrown ''User wallet not found'', [Send chatId CreatingOrder])
   \<or> (\<exists>product a user.
         selectedProduct session = Some product \<and> truthy (email session)
         \<and> physicalAddress session = Some a \<and> getUser st userId = Some user
         \<and> truthy (walletAddress user))"
  by (auto simp: createHeadlessOrder_try_def split: option.splits)

lemma createHeadlessOrder_try_effects:
  assumes "e \<in> set (snd (createHeadlessOrder_try w st chatId userId session))"
  shows "(\<exists>m. e = Send chatId m) \<or> (\<exists>request. e = PostOrder request)
         \<or> (\<exists>address transaction chainName. e = PostTransaction address transaction chainName)
         \<or> (\<exists>oid. e = StartOrderMonitoring oid userId)"
proof -
  consider
      (missing) "createHeadlessOrder_try w st chatId userId session
                   = (Thrown ''Missing required session data'', [])"
    | (wallet) "createHeadlessOrder_try w st chatId userId session
                   = (Thrown ''User wallet not found'', [Send chatId CreatingOrder])"
    | (order) product a user where
        "selectedProduct session = Some product" "truthy (email session)"
        "physicalAddress session = Some a" "getUser st userId = Some user"
        "truthy (walletAddress user)"
    using createHeadlessOrder_try_cases[of w st chatId userId session] by blast
  then show ?thesis
  proof cases
    case missing
    with assms show ?thesis by simp
  next
    case wallet
    with assms show ?thesis by simp
  next
    case order
    let ?created = "createWalletAmazonOrder w product (or_else (email session) [])
           (or_else (walletAddress user) []) a"
    show ?thesis
    proof (cases "fst ?created")
      case (Inl thrown)
      then have "?created = (Inl thrown, snd ?created)"
        by (metis prod.collapse)
      from createHeadlessOrder_try_thrown[OF order this, of chatId] assms
        createWalletAmazonOrder_PostOrder[of e w product "or_else (email session) []"
          "or_else (walletAddress user) []" a]
      show ?thesis by auto
    next
      case (Inr wo)
      then have "?created = (Inr wo, snd ?created)"
        by (metis prod.collapse)
      from createHeadlessOrder_try_signature[OF order this, of chatId] assms
        createWalletAmazonOrder_PostOrder[of e w product "or_else (email session) []"
          "or_else (walletAddress user) []" a]
      show ?thesis by (auto split: sign_result.splits)
    qed
  qed
qed

lemma createHeadlessOrder_effects:
  assumes "e \<in> set (snd (snd (createHeadlessOrder w st chatId userId session)))"
  shows "(\<exists>m. e = Send chatId m) \<or> (\<exists>request. e = PostOrder request)
         \<or> (\<exists>address transaction chainName. e = PostTransaction address transaction chainName)
         \<or> (\<exists>oid. e = StartOrderMonitoring oid userId) \<or> e = SessionDelete userId"
proof -
  obtain outcome effs where tried:
    "createHeadlessOrder_try w st chatId userId session = (outcome, effs)"
    by (cases "createHeadlessOrder_try w st chatId userId session")
  from assms have "e \<in> set effs \<or> (\<exists>m. e = Send chatId m) \<or> e = SessionDelete userId"
    by (auto simp: createHeadlessOrder_def tried
          split: try_outcome.splits if_splits sum.splits)
  with createHeadlessOrder_try_effects[of e w st chatId userId session] tried
  show ?thesis by auto
qed

lemma createOrderWithRetry_loop_signers:
  "createOrderWithRetry_loop (w\<lparr>signers_endpoint := f\<rparr>) orderRequest i variations lastError
     = createOrderWithRetry_loop w orderRequest i variations lastError"
  by (induction variations arbitrary: i lastError)
     (simp_all add: createOrderWithRetry_loop_Cons split: order_post.splits option.splits)

lemma createOrderWithRetry_signers:
  "createOrderWithRetry (w\<lparr>signers_endpoint := f\<rparr>) = createOrderWithRetry w"
  by (intro ext) (simp add: createOrderWithRetry_def createOrderWithRetry_loop_signers)

lemma createWalletAmazonOrder_signers:
  "createWalletAmazonOrder (w\<lparr>signers_endpoint := f\<rparr>) = createWalletAmazonOrder w"
  unfolding createWalletAmazonOrder_def createWalletAmazonOrder_try_def
    createOrderWithRetry_signers
  by (rule refl)

lemma signOrderTransaction_signers:
  "signOrderTransaction (w\<lparr>signers_endpoint := f\<rparr>) = signOrderTransaction w"
  by (intro ext) (simp add: signOrderTransaction_def split: tx_post.splits)

lemma generateTopUpLink_signers:
  "generateTopUpLink (w\<lparr>signers_endpoint := f\<rparr>) = generateTopUpLink w"
  by (intro ext) (simp add: generateTopUpLink_def split: option.splits)

lemma createHeadlessOrder_try_signers:
  "createHeadlessOrder_try (w\<lparr>signers_endpoint := f\<rparr>) = createHeadlessOrder_try w"
  unfolding createHeadlessOrder_try_def createWalletAmazonOrder_signers
    signOrderTransaction_signers generateTopUpLink_signers
  by (rule refl)

lemma createHeadlessOrder_signers:
  "createHeadlessOrder (w\<lparr>signers_endpoint := f\<rparr>) = createHeadlessOrder w"
  unfolding createHeadlessOrder_def createHeadlessOrder_try_signers generateTopUpLink_signers
  by (rule refl)


subsection \<open>The scenarios, evaluated\<close>

lemma scenario_asin: "asinMatch (amazonUrl scenario_product) = Some ''B000000001''"
  by code_simp

lemma scenario_first_accepted:
  "createOrderWithRetry (scenario_steady (OrderResolved (Some r)) signers)
      (make_orderRequest (''amazon:'' @ ''B000000001'') userEmail address a)
      (getProductLocatorVariations ''B000000001'' (amazonUrl scenario_product))
    = (Inr r,
       [PostOrder (make_orderRequest ''amazon:B000000001'' userEmail address a)])"
  by (simp add: createOrderWithRetry_def getProductLocatorVariations_def
        createOrderWithRetry_loop_Cons scenario_worlds make_orderRequest_def)


lemma scenario_user_facts:
  "getUser (scenario_state mail) 7 = Some (scenario_user mail)"
  "truthy (walletAddress (scenario_user mail))"
  "or_else (walletAddress (scenario_user mail)) [] = ''0xabc''"
  by (simp_all add: getUser_def scenario_state_def scenario_user_def truthy_def or_else_def)

lemma scenario_session_facts:
  "selectedProduct (scenario_session s) = Some scenario_product"
  "truthy (email (scenario_session s))"
  "or_else (email (scenario_session s)) [] = ''john@example.com''"
  "physicalAddress (scenario_session s) = Some scenario_address"
  "country scenario_address = ''US''"
  "truthy (addr_state scenario_address)"
  by (simp_all add: scenario_session_def scenario_address_def truthy_def or_else_def)



section \<open>Properties of the OrderGateway and of signing\<close>

text \<open>
  Claim C6.  Whatever else the provider's response holds, a payment status of
  \<open>crypto-payer-insufficient-funds\<close> makes \<open>createWalletAmazonOrder\<close> throw the error
  ``Insufficient USDC funds in wallet'' (re-thrown with the prefix of its \<open>catch\<close>
  block), and \<open>createHeadlessOrder\<close> answers it with the insufficient-funds message,
  which carries the top-up link whenever the web application URL is valid, and not with
  the general failure message; the session is then deleted.
\<close>

theorem insufficient_funds_offers_top_up:
  assumes "selectedProduct session = Some product"
    and "truthy (email session)"
    and "physicalAddress session = Some a"
    and "getUser st userId = Some user"
    and "truthy (walletAddress user)"
    and "asinMatch (amazonUrl product) = Some asin"
    and "country a = ''US''"
    and "truthy (addr_state a)"
    and "createOrderWithRetry w
           (make_orderRequest (''amazon:'' @ asin) (or_else (email session) [])
              (or_else (walletAddress user) []) a)
           (getProductLocatorVariations asin (amazonUrl product)) = (Inr r, effs)"
    and "payment_status (payment (response_order r)) = ''crypto-payer-insufficient-funds''"
  shows "check_order_response r = Inl (Error ''Insufficient USDC funds in wallet'')
    \<and> createWalletAmazonOrder w product (or_else (email session) [])
          (or_else (walletAddress user) []) a
        = (Inl ''Unexpected error during order creation: Error: Insufficient USDC funds in wallet'',
           effs)
    \<and> createHeadlessOrder w st chatId userId session
        = (None, delete_session st userId,
           (Send chatId CreatingOrder # effs)
           @ [Send chatId (InsufficientUSDCFundsError
                (if webAppUrlValid w then Some (topUpUrl w userId) else None)),
              SessionDelete userId])"
proof -
  have classified: "check_order_response r = Inl (Error ''Insufficient USDC funds in wallet'')"
    using assms(10) by (rule check_order_response_insufficient)
  have thrown: "createWalletAmazonOrder w product (or_else (email session) [])
          (or_else (walletAddress user) []) a
        = (Inl (''Unexpected error during order creation: ''
                 @ error_toString (Error ''Insufficient USDC funds in wallet'')), effs)"
    using createWalletAmazonOrder_of_response[OF assms(6-9)] classified
    by (simp add: createWalletAmazonOrder_catch_def)
  have tried: "createHeadlessOrder_try w st chatId userId session
        = (Thrown (''Unexpected error during order creation: ''
                 @ error_toString (Error ''Insufficient USDC funds in wallet'')),
           Send chatId CreatingOrder # effs)"
    by (rule createHeadlessOrder_try_thrown[OF assms(1-5) thrown])
  have handled: "createHeadlessOrder w st chatId userId session
        = (None, delete_session st userId,
           (Send chatId CreatingOrder # effs)
           @ [Send chatId (InsufficientUSDCFundsError
                (if webAppUrlValid w then Some (topUpUrl w userId) else None)),
              SessionDelete userId])"
    unfolding createHeadlessOrder_def tried
    using insufficient_message_includes generateTopUpLink_with_wallet[OF assms(4,5), of w]
    by simp
  from classified thrown handled show ?thesis by simp
qed

theorem insufficient_funds_offers_top_up_witness:
  "createHeadlessOrder
      (scenario_steady (OrderResolved (Some scenario_unfunded))
         FetchRejected)
      (scenario_state None) 70 7 (scenario_session creating_order)
    = (None, delete_session (scenario_state None) 7,
       [Send 70 CreatingOrder,
        PostOrder (make_orderRequest ''amazon:B000000001'' ''john@example.com'' ''0xabc''
                     scenario_address),
        Send 70 (InsufficientUSDCFundsError (Some ''https://app.example/topup'')),
        SessionDelete 7])"
proof -
  let ?r = "scenario_unfunded"
  let ?w = "scenario_steady (OrderResolved (Some ?r)) FetchRejected"
  have accepted: "createOrderWithRetry ?w
      (make_orderRequest (''amazon:'' @ ''B000000001'')
         (or_else (email (scenario_session creating_order)) [])
         (or_else (walletAddress (scenario_user None)) []) scenario_address)
      (getProductLocatorVariations ''B000000001'' (amazonUrl scenario_product))
    = (Inr ?r,
       [PostOrder (make_orderRequest ''amazon:B000000001''
          (or_else (email (scenario_session creating_order)) [])
          (or_else (walletAddress (scenario_user None)) []) scenario_address)])"
    by (rule scenario_first_accepted)
  have short: "payment_status (payment (response_order ?r)) = ''crypto-payer-insufficient-funds''"
    by (simp add: scenario_orders)
  have link: "webAppUrlValid ?w" "topUpUrl ?w 7 = ''https://app.example/topup''"
    by (simp_all add: scenario_worlds)
  from insufficient_funds_offers_top_up
      [OF scenario_session_facts(1,2,4) scenario_user_facts(1,2) scenario_asin
          scenario_session_facts(5,6) accepted short, of 70]
  have "createHeadlessOrder ?w (scenario_state None) 70 7 (scenario_session creating_order)
    = (None, delete_session (scenario_state None) 7,
       (Send 70 CreatingOrder
        # [PostOrder (make_orderRequest ''amazon:B000000001''
             (or_else (email (scenario_session creating_order)) [])
             (or_else (walletAddress (scenario_user None)) []) scenario_address)])
       @ [Send 70 (InsufficientUSDCFundsError
            (if webAppUrlValid ?w then Some (topUpUrl ?w 7) else None)),
          SessionDelete 7])"
    by simp
  then show ?thesis
    unfolding scenario_user_facts(3) scenario_session_facts(3) link(2)
    using link(1) by simp
qed


text \<open>
  Claim C2, as the code has it.  A response without a serialized transaction (and
  neither insufficient funds nor address required) is not a success: the gateway throws
  ``No serialized transaction found for order. This item may not be available for
  purchase.'', the handler reports that the order creation failed and deletes the
  session.  Every order that \<open>createWalletAmazonOrder\<close> does return has
  \<open>requiresTransaction\<close> set and a non-empty transaction to sign.
\<close>

theorem order_without_transaction_fails:
  assumes "selectedProduct session = Some product"
    and "truthy (email session)"
    and "physicalAddress session = Some a"
    and "getUser st userId = Some user"
    and "truthy (walletAddress user)"
    and "asinMatch (amazonUrl product) = Some asin"
    and "country a = ''US''"
    and "truthy (addr_state a)"
    and "createOrderWithRetry w
           (make_orderRequest (''amazon:'' @ asin) (or_else (email session) [])
              (or_else (walletAddress user) []) a)
           (getProductLocatorVariations asin (amazonUrl product)) = (Inr r, effs)"
    and "payment_status (payment (response_order r)) \<noteq> ''crypto-payer-insufficient-funds''"
    and "quote_status (order_quote (response_order r)) \<noteq> ''requires-physical-address''"
    and "\<not> truthy (order_serializedTransaction (response_order r))"
  shows "createWalletAmazonOrder w product (or_else (email session) [])
          (or_else (walletAddress user) []) a
        = (Inl (''Unexpected error during order creation: Error: ''
                @ ''No serialized transaction found for order. ''
                @ ''This item may not be available for purchase.''), effs)
    \<and> createHeadlessOrder w st chatId userId session
        = (None, delete_session st userId,
           (Send chatId CreatingOrder # effs)
           @ [Send chatId (OrderCreationFailed
                (''Unexpected error during order creation: Error: ''
                 @ ''No serialized transaction found for order. ''
                 @ ''This item may not be available for purchase.'')),
              SessionDelete userId])
    \<and> (\<forall>w' product' userEmail' address' a' wo effs'.
          createWalletAmazonOrder w' product' userEmail' address' a' = (Inr wo, effs') \<longrightarrow>
          requiresTransaction wo \<and> transaction_to_sign wo \<noteq> [])"
proof -
  let ?message = "''Unexpected error during order creation: ''
       @ error_toString (Error (''No serialized transaction found for order. ''
                       @ ''This item may not be available for purchase.''))"
  have classified: "check_order_response r
      = Inl (Error (''No serialized transaction found for order. ''
                       @ ''This item may not be available for purchase.''))"
    using assms(10-12) by (rule check_order_response_no_transaction)
  have thrown: "createWalletAmazonOrder w product (or_else (email session) [])
          (or_else (walletAddress user) []) a = (Inl ?message, effs)"
    using createWalletAmazonOrder_of_response[OF assms(6-9)] classified
    by (simp add: createWalletAmazonOrder_catch_def)
  have tried: "createHeadlessOrder_try w st chatId userId session
        = (Thrown ?message, Send chatId CreatingOrder # effs)"
    by (rule createHeadlessOrder_try_thrown[OF assms(1-5) thrown])
  have handled: "createHeadlessOrder w st chatId userId session
        = (None, delete_session st userId,
           (Send chatId CreatingOrder # effs)
           @ [Send chatId (OrderCreationFailed ?message), SessionDelete userId])"
    unfolding createHeadlessOrder_def tried
    using no_transaction_message_excludes
    by simp
  have never: "\<forall>w' product' userEmail' address' a' wo effs'.
          createWalletAmazonOrder w' product' userEmail' address' a' = (Inr wo, effs') \<longrightarrow>
          requiresTransaction wo \<and> transaction_to_sign wo \<noteq> []"
    using createWalletAmazonOrder_Inr by blast
  from thrown handled never show ?thesis by simp
qed

theorem order_without_transaction_fails_witness:
  "createHeadlessOrder
      (scenario_steady (OrderResolved (Some scenario_unsigned))
         FetchRejected)
      (scenario_state None) 70 7 (scenario_session creating_order)
    = (None, delete_session (scenario_state None) 7,
       [Send 70 CreatingOrder,
        PostOrder (make_orderRequest ''amazon:B000000001'' ''john@example.com'' ''0xabc''
                     scenario_address),
        Send 70 (OrderCreationFailed
           (''Unexpected error during order creation: Error: ''
            @ ''No serialized transaction found for order. ''
            @ ''This item may not be available for purchase.'')),
        SessionDelete 7])"
proof -
  let ?r = "scenario_unsigned"
  let ?w = "scenario_steady (OrderResolved (Some ?r)) FetchRejected"
  have accepted: "createOrderWithRetry ?w
      (make_orderRequest (''amazon:'' @ ''B000000001'')
         (or_else (email (scenario_session creating_order)) [])
         (or_else (walletAddress (scenario_user None)) []) scenario_address)
      (getProductLocatorVariations ''B000000001'' (amazonUrl scenario_product))
    = (Inr ?r,
       [PostOrder (make_orderRequest ''amazon:B000000001''
          (or_else (email (scenario_session creating_order)) [])
          (or_else (walletAddress (scenario_user None)) []) scenario_address)])"
    by (rule scenario_first_accepted)
  have paid: "payment_status (payment (response_order ?r)) \<noteq> ''crypto-payer-insufficient-funds''"
    and quoted: "quote_status (order_quote (response_order ?r)) \<noteq> ''requires-physical-address''"
    and bare: "\<not> truthy (order_serializedTransaction (response_order ?r))"
    by (simp_all add: scenario_orders order_serializedTransaction_def truthy_def)
  from order_without_transaction_fails
      [OF scenario_session_facts(1,2,4) scenario_user_facts(1,2) scenario_asin
          scenario_session_facts(5,6) accepted paid quoted bare, of 70]
  have "createHeadlessOrder ?w (scenario_state None) 70 7 (scenario_session creating_order)
    = (None, delete_session (scenario_state None) 7,
       (Send 70 CreatingOrder
        # [PostOrder (make_orderRequest ''amazon:B000000001''
             (or_else (email (scenario_session creating_order)) [])
             (or_else (walletAddress (scenario_user None)) []) scenario_address)])
       @ [Send 70 (OrderCreationFailed
            (''Unexpected error during order creation: Error: ''
             @ ''No serialized transaction found for order. ''
             @ ''This item may not be available for purchase.'')),
          SessionDelete 7])"
    by simp
  then show ?thesis
    unfolding scenario_user_facts(3) scenario_session_facts(3)
    by simp
qed


text \<open>
  Claim C2, as stated, fails: the provider answers the first attempt with an order that
  has no serialized transaction, and the gateway throws instead of returning.
\<close>

theorem auto_completed_counterexample:
  "order_serializedTransaction (response_order scenario_unsigned) = None
   \<and> fst (createWalletAmazonOrder
        (scenario_steady (OrderResolved (Some scenario_unsigned))
           FetchRejected)
        scenario_product ''john@example.com'' ''0xabc'' scenario_address)
      = Inl (''Unexpected error during order creation: Error: ''
             @ ''No serialized transaction found for order. ''
             @ ''This item may not be available for purchase.'')"
  by code_simp


text \<open>
  Claim C1, as the code has it.  For a response that carries a serialized transaction
  (and is neither insufficient funds nor address required), \<open>createHeadlessOrder\<close>
  posts that transaction to the wallet's transaction endpoint through
  \<open>signOrderTransaction\<close> and reports success or failure of the submission.  It never
  requests the wallet's signers, and its result is the same whatever the signers
  endpoint would answer: the delegation checker is not consulted.
\<close>

theorem signing_ignores_delegation:
  assumes "selectedProduct session = Some product"
    and "truthy (email session)"
    and "physicalAddress session = Some a"
    and "getUser st userId = Some user"
    and "truthy (walletAddress user)"
    and "asinMatch (amazonUrl product) = Some asin"
    and "country a = ''US''"
    and "truthy (addr_state a)"
    and "createOrderWithRetry w
           (make_orderRequest (''amazon:'' @ asin) (or_else (email session) [])
              (or_else (walletAddress user) []) a)
           (getProductLocatorVariations asin (amazonUrl product)) = (Inr r, effs)"
    and "truthy (order_serializedTransaction (response_order r))"
    and "payment_status (payment (response_order r)) \<noteq> ''crypto-payer-insufficient-funds''"
    and "quote_status (order_quote (response_order r)) \<noteq> ''requires-physical-address''"
  shows "createHeadlessOrder w st chatId userId session
        = (None, delete_session st userId,
           (Send chatId CreatingOrder # effs)
           @ [Send chatId (ProcessingYourOrder (orderId (response_order r))),
              PostTransaction (or_else (walletAddress user) [])
                (or_else (order_serializedTransaction (response_order r)) [])
                (or_else (order_chain (response_order r)) ''base-sepolia'')]
           @ (case fst (signOrderTransaction w (or_else (walletAddress user) [])
                          (or_else (order_serializedTransaction (response_order r)) [])
                          (or_else (order_chain (response_order r)) ''base-sepolia'')) of
                SignSuccess transactionId \<Rightarrow>
                  [Send chatId (PaymentSuccessful (orderId (response_order r)) transactionId),
                   StartOrderMonitoring (orderId (response_order r)) userId]
              | SignFailure failure \<Rightarrow> [Send chatId (PaymentFailed failure)])
           @ [SessionDelete userId])
    \<and> (\<forall>address. GetSigners address
          \<notin> set (snd (snd (createHeadlessOrder w st chatId userId session))))
    \<and> (\<forall>signers. createHeadlessOrder (w\<lparr>signers_endpoint := signers\<rparr>) st chatId userId session
          = createHeadlessOrder w st chatId userId session)"
proof -
  let ?wo = "\<lparr>validatedResponse = r, requiresTransaction = True,
              transaction_to_sign = or_else (order_serializedTransaction (response_order r)) []\<rparr>"
  have checked: "check_order_response r = Inr ?wo"
    using assms(10-12) by (simp add: check_order_response_def Let_def)
  have created: "createWalletAmazonOrder w product (or_else (email session) [])
          (or_else (walletAddress user) []) a = (Inr ?wo, effs)"
    using createWalletAmazonOrder_of_response[OF assms(6-9)] checked by simp
  have submitted: "createHeadlessOrder w st chatId userId session
        = (None, delete_session st userId,
           (Send chatId CreatingOrder # effs)
           @ [Send chatId (ProcessingYourOrder (orderId (response_order r))),
              PostTransaction (or_else (walletAddress user) [])
                (or_else (order_serializedTransaction (response_order r)) [])
                (or_else (order_chain (response_order r)) ''base-sepolia'')]
           @ (case fst (signOrderTransaction w (or_else (walletAddress user) [])
                          (or_else (order_serializedTransaction (response_order r)) [])
                          (or_else (order_chain (response_order r)) ''base-sepolia'')) of
                SignSuccess transactionId \<Rightarrow>
                  [Send chatId (PaymentSuccessful (orderId (response_order r)) transactionId),
                   StartOrderMonitoring (orderId (response_order r)) userId]
              | SignFailure failure \<Rightarrow> [Send chatId (PaymentFailed failure)])
           @ [SessionDelete userId])"
    unfolding createHeadlessOrder_def
      createHeadlessOrder_try_signature[OF assms(1-5) created, of chatId]
    by (simp split: sign_result.splits)
  have unasked: "\<forall>address. GetSigners address
          \<notin> set (snd (snd (createHeadlessOrder w st chatId userId session)))"
    using createHeadlessOrder_effects[of _ w st chatId userId session] by blast
  have independent: "\<forall>signers.
        createHeadlessOrder (w\<lparr>signers_endpoint := signers\<rparr>) st chatId userId session
          = createHeadlessOrder w st chatId userId session"
    by (simp add: createHeadlessOrder_signers)
  from submitted unasked independent show ?thesis by blast
qed

theorem signing_ignores_delegation_witness:
  "createHeadlessOrder
      (scenario_steady (OrderResolved (Some scenario_signable))
         (FetchResponse 200 (Some [])))
      (scenario_state None) 70 7 (scenario_session creating_order)
    = (None, delete_session (scenario_state None) 7,
       [Send 70 CreatingOrder,
        PostOrder (make_orderRequest ''amazon:B000000001'' ''john@example.com'' ''0xabc''
                     scenario_address),
        Send 70 (ProcessingYourOrder ''order-1''),
        PostTransaction ''0xabc'' ''0xdeadbeef'' ''base-sepolia'',
        Send 70 (PaymentSuccessful ''order-1'' (Some ''tx-1'')),
        StartOrderMonitoring ''order-1'' 7,
        SessionDelete 7])"
proof -
  let ?r = "scenario_signable"
  let ?w = "scenario_steady (OrderResolved (Some ?r)) (FetchResponse 200 (Some []))"
  have accepted: "createOrderWithRetry ?w
      (make_orderRequest (''amazon:'' @ ''B000000001'')
         (or_else (email (scenario_session creating_order)) [])
         (or_else (walletAddress (scenario_user None)) []) scenario_address)
      (getProductLocatorVariations ''B000000001'' (amazonUrl scenario_product))
    = (Inr ?r,
       [PostOrder (make_orderRequest ''amazon:B000000001''
          (or_else (email (scenario_session creating_order)) [])
          (or_else (walletAddress (scenario_user None)) []) scenario_address)])"
    by (rule scenario_first_accepted)
  have carried: "truthy (order_serializedTransaction (response_order ?r))"
    and paid: "payment_status (payment (response_order ?r)) \<noteq> ''crypto-payer-insufficient-funds''"
    and quoted: "quote_status (order_quote (response_order ?r)) \<noteq> ''requires-physical-address''"
    by (simp_all add: scenario_orders order_serializedTransaction_def truthy_def)
  have read: "orderId (response_order ?r) = ''order-1''"
      "or_else (order_serializedTransaction (response_order ?r)) [] = ''0xdeadbeef''"
      "or_else (order_chain (response_order ?r)) ''base-sepolia'' = ''base-sepolia''"
    by (simp_all add: scenario_orders order_serializedTransaction_def order_chain_def
          or_else_def)
  have signed: "fst (signOrderTransaction ?w ''0xabc'' ''0xdeadbeef'' ''base-sepolia'')
      = SignSuccess (Some ''tx-1'')"
    by (simp add: signOrderTransaction_def scenario_worlds)
  from signing_ignores_delegation
      [OF scenario_session_facts(1,2,4) scenario_user_facts(1,2) scenario_asin
          scenario_session_facts(5,6) accepted carried paid quoted, of 70]
  have "createHeadlessOrder ?w (scenario_state None) 70 7 (scenario_session creating_order)
    = (None, delete_session (scenario_state None) 7,
       (Send 70 CreatingOrder
        # [PostOrder (make_orderRequest ''amazon:B000000001''
             (or_else (email (scenario_session creating_order)) [])
             (or_else (walletAddress (scenario_user None)) []) scenario_address)])
       @ [Send 70 (ProcessingYourOrder (orderId (response_order ?r))),
          PostTransaction (or_else (walletAddress (scenario_user None)) [])
            (or_else (order_serializedTransaction (response_order ?r)) [])
            (or_else (order_chain (response_order ?r)) ''base-sepolia'')]
       @ (case fst (signOrderTransaction ?w (or_else (walletAddress (scenario_user None)) [])
                      (or_else (order_serializedTransaction (response_order ?r)) [])
                      (or_else (order_chain (response_order ?r)) ''base-sepolia'')) of
            SignSuccess transactionId \<Rightarrow>
              [Send 70 (PaymentSuccessful (orderId (response_order ?r)) transactionId),
               StartOrderMonitoring (orderId (response_order ?r)) 7]
          | SignFailure failure \<Rightarrow> [Send 70 (PaymentFailed failure)])
       @ [SessionDelete 7])"
    by (rule conjunct1)
  then show ?thesis
    unfolding read scenario_user_facts(3) scenario_session_facts(3) signed
    by simp
qed


text \<open>
  Claim C1, as stated, fails: here the delegation checker returns \<open>false\<close> for the
  payer, and the handler still posts the serialized transaction.
\<close>

theorem signing_without_delegation_counterexample:
  "\<not> fst (isDelegatedToBotSigner
            (scenario_steady (OrderResolved (Some scenario_signable))
               (FetchResponse 200 (Some [])))
            (scenario_state None) 7)
   \<and> PostTransaction ''0xabc'' ''0xdeadbeef'' ''base-sepolia''
       \<in> set (snd (snd (createHeadlessOrder
            (scenario_steady (OrderResolved (Some scenario_signable))
               (FetchResponse 200 (Some [])))
            (scenario_state None) 70 7 (scenario_session creating_order))))"
  by code_simp

text \<open>
  Claim C3, at a failing input.  The first attempt is answered with a success status and
  a body that the response schema rejects; every later attempt with HTTP 400 ``Product
  not found''.  The parse failure does not end the loop: all five variations are sent,
  and the error that reaches the caller is the last ``Product not found'', not the
  parse failure.
\<close>

theorem parse_failure_does_not_abort:
  "createOrderWithRetry
      (scenario_world (OrderResolved None) (OrderRejected scenario_not_found) FetchRejected)
      (make_orderRequest ''amazon:B000000001'' ''john@example.com'' ''0xabc'' scenario_address)
      (getProductLocatorVariations ''B000000001'' ''https://www.amazon.com/dp/B000000001'')
    = (Inl (Axios scenario_not_found),
       map (\<lambda>locator. PostOrder
              (make_orderRequest locator ''john@example.com'' ''0xabc'' scenario_address))
         [''amazon:B000000001'',
          ''amazon:https://www.amazon.com/dp/B000000001'',
          ''amazon:https://www.amazon.com/dp/B000000001'',
          ''B000000001'',
          ''https://www.amazon.com/dp/B000000001''])"
  by code_simp


text \<open>
  Claim C4, at a failing input.  The provider accepts the first variation, with a body
  that the response schema rejects, and accepts the second one too: the loop has sent
  a second order request after the first one was accepted.
\<close>

theorem second_order_after_accepted_variant:
  "orders_endpoint
      (scenario_world (OrderResolved None) (OrderResolved (Some scenario_signable))
         FetchRejected) 0
      (make_orderRequest ''amazon:B000000001'' ''john@example.com'' ''0xabc'' scenario_address)
     = OrderResolved None
   \<and> createOrderWithRetry
      (scenario_world (OrderResolved None) (OrderResolved (Some scenario_signable))
         FetchRejected)
      (make_orderRequest ''amazon:B000000001'' ''john@example.com'' ''0xabc'' scenario_address)
      (getProductLocatorVariations ''B000000001'' ''https://www.amazon.com/dp/B000000001'')
    = (Inr scenario_signable,
       [PostOrder (make_orderRequest ''amazon:B000000001'' ''john@example.com'' ''0xabc''
                     scenario_address),
        PostOrder (make_orderRequest ''amazon:https://www.amazon.com/dp/B000000001''
                     ''john@example.com'' ''0xabc'' scenario_address)])"
  by code_simp

section \<open>The checkout session over sequences of text messages\<close>

lemma handleCheckoutMessage_default:
  assumes "from_id msg = Some userId"
    and "userSessions st userId = Some session"
    and "step session = product_selected \<or> step session = creating_order
         \<or> step session = completed"
  shows "handleCheckoutMessage w st msg = (False, st, [])"
  using assms
  by (auto simp: handleCheckoutMessage_def Let_def split: option.splits)

lemma createHeadlessOrder_state:
  "fst (snd (createHeadlessOrder w st chatId userId session)) = st
   \<or> fst (snd (createHeadlessOrder w st chatId userId session)) = delete_session st userId"
  by (auto simp: createHeadlessOrder_def
        split: prod.splits try_outcome.splits sum.splits if_splits)

lemma createHeadlessOrder_no_SessionSet:
  "SessionSet u s \<notin> set (snd (snd (createHeadlessOrder w st chatId userId session)))"
  using createHeadlessOrder_effects[of "SessionSet u s" w st chatId userId session] by auto

lemma handleEmailInput_rejected:
  "\<not> matches emailRegex t \<Longrightarrow>
   handleEmailInput st chatId userId t session = (True, st, [Send chatId InvalidEmail])"
  by (simp add: handleEmailInput_def)

lemma handleEmailInput_accepted:
  "matches emailRegex t \<Longrightarrow> selectedProduct session \<noteq> None \<Longrightarrow>
   handleEmailInput st chatId userId t session
     = (True,
        st\<lparr>userSessions := (userSessions st)
              (userId \<mapsto> session\<lparr>email := Some t, step := collecting_address\<rparr>)\<rparr>,
        [SessionSet userId (session\<lparr>email := Some t, step := collecting_address\<rparr>),
         Send chatId ShippingAddressRequired])"
  by (simp add: handleEmailInput_def Let_def)

lemma handleAddressInput_rejected:
  assumes "\<not> accepted_address t"
  shows "\<exists>m. handleAddressInput w st chatId userId (trim t) session
               = (Inr True, st, [Send chatId m])"
proof -
  define parts where "parts = map trim (split_on CHR ''|'' (trim t))"
  have "length parts < 6
      \<or> (parts ! 0 = [] \<or> parts ! 1 = [] \<or> parts ! 2 = [] \<or> parts ! 3 = []
          \<or> parts ! 4 = [] \<or> parts ! 5 = [])
      \<or> toUpperCase (parts ! 5) \<noteq> ''US''"
    using assms unfolding accepted_address_def Let_def parts_def[symmetric] by auto
  then show ?thesis
    unfolding handleAddressInput_def Let_def parts_def[symmetric]
    by (auto simp del: One_nat_def)
qed

lemma handleAddressInput_accepted:
  assumes "accepted_address t"
  shows "handleAddressInput w st chatId userId (trim t) session
      = (case fst (createHeadlessOrder w
                (st\<lparr>userSessions := (userSessions st)
                      (userId \<mapsto> session\<lparr>physicalAddress := Some (address_of (trim t)),
                                           step := creating_order\<rparr>)\<rparr>)
                chatId userId
                (session\<lparr>physicalAddress := Some (address_of (trim t)),
                         step := creating_order\<rparr>)) of
           None \<Rightarrow> Inr True
         | Some thrown \<Rightarrow> Inl thrown,
         fst (snd (createHeadlessOrder w
                (st\<lparr>userSessions := (userSessions st)
                      (userId \<mapsto> session\<lparr>physicalAddress := Some (address_of (trim t)),
                                           step := creating_order\<rparr>)\<rparr>)
                chatId userId
                (session\<lparr>physicalAddress := Some (address_of (trim t)),
                         step := creating_order\<rparr>))),
         SessionSet userId (session\<lparr>physicalAddress := Some (address_of (trim t)),
                                    step := creating_order\<rparr>)
           # snd (snd (createHeadlessOrder w
                (st\<lparr>userSessions := (userSessions st)
                      (userId \<mapsto> session\<lparr>physicalAddress := Some (address_of (trim t)),
                                           step := creating_order\<rparr>)\<rparr>)
                chatId userId
                (session\<lparr>physicalAddress := Some (address_of (trim t)),
                         step := creating_order\<rparr>))))"
proof -
  define parts where "parts = map trim (split_on CHR ''|'' (trim t))"
  have filled: "\<not> length parts < 6"
      "\<not> (parts ! 0 = [] \<or> parts ! 1 = [] \<or> parts ! 2 = [] \<or> parts ! 3 = []
          \<or> parts ! 4 = [] \<or> parts ! 5 = [])"
      "\<not> toUpperCase (parts ! 5) \<noteq> ''US''"
    using assms unfolding accepted_address_def Let_def parts_def[symmetric] by auto
  show ?thesis
    unfolding handleAddressInput_def address_of_def Let_def parts_def[symmetric]
    by (simp only: filled if_False) (auto split: prod.splits option.splits)
qed

lemma handleCheckoutMessage_cases:
  assumes run: "handleCheckoutMessage w st msg = (handled, st', effs)"
  shows "(st' = st \<and> (\<forall>u s. SessionSet u s \<notin> set effs))
    \<or> (\<exists>userId t session.
          from_id msg = Some userId \<and> msg_text msg = Some t
          \<and> userSessions st userId = Some session \<and> step session = collecting_email
          \<and> accepted_email t
          \<and> st' = st\<lparr>userSessions := (userSessions st)
                      (userId \<mapsto> session\<lparr>email := Some (trim t),
                                           step := collecting_address\<rparr>)\<rparr>
          \<and> effs = [SessionSet userId (session\<lparr>email := Some (trim t),
                                                 step := collecting_address\<rparr>),
                     Send (chat_id msg) ShippingAddressRequired])
    \<or> (\<exists>userId t session.
          from_id msg = Some userId \<and> msg_text msg = Some t
          \<and> userSessions st userId = Some session \<and> step session = collecting_address
          \<and> accepted_address t
          \<and> (\<forall>u s. SessionSet u s \<in> set effs \<longrightarrow>
                u = userId
                \<and> s = session\<lparr>physicalAddress := Some (address_of (trim t)),
                             step := creating_order\<rparr>)
          \<and> (\<forall>v. v \<noteq> userId \<longrightarrow> userSessions st' v = userSessions st v)
          \<and> (userSessions st' userId = None
              \<or> userSessions st' userId
                   = Some (session\<lparr>physicalAddress := Some (address_of (trim t)),
                                   step := creating_order\<rparr>)))"
    (is "?ignored \<or> ?email \<or> ?address")
proof (cases "from_id msg")
  case None
  with run show ?thesis by (simp add: handleCheckoutMessage_def Let_def)
next
  case (Some userId)
  show ?thesis
  proof (cases "userId = 0 \<or> \<not> truthy (map_option trim (msg_text msg))")
    case True
    with run Some show ?thesis by (auto simp: handleCheckoutMessage_def Let_def)
  next
    case False
    then obtain t where t: "msg_text msg = Some t" "trim t \<noteq> []"
      by (auto simp: truthy_def split: option.splits)
    then have trimmed: "or_else (map_option trim (msg_text msg)) [] = trim t"
      by (simp add: or_else_def)
    show ?thesis
    proof (cases "userSessions st userId")
      case None
      with run Some False show ?thesis by (auto simp: handleCheckoutMessage_def Let_def)
    next
      case session: (Some session)
      show ?thesis
      proof (cases "selectedProduct session = None")
        case True
        with run Some False session show ?thesis
          by (auto simp: handleCheckoutMessage_def Let_def)
      next
        case product: False
        consider (email) "step session = collecting_email"
          | (address) "step session = collecting_address"
          | (other) "step session = product_selected \<or> step session = creating_order
                     \<or> step session = completed"
          by (cases "step session") auto
        then show ?thesis
        proof cases
          case other
          from handleCheckoutMessage_default[OF Some session other, of w] run
          show ?thesis by simp
        next
          case email
          from run Some False session product email trimmed
          have handled: "handleEmailInput st (chat_id msg) userId (trim t) session
                           = (handled, st', effs)"
            by (simp add: handleCheckoutMessage_def Let_def)
          show ?thesis
          proof (cases "matches emailRegex (trim t)")
            case True
            from handleEmailInput_accepted[OF True product, of st "chat_id msg" userId] handled
            have "?email"
              using Some t(1) session email True by (auto simp: accepted_email_def)
            then show ?thesis by blast
          next
            case False
            from handleEmailInput_rejected[OF False, of st "chat_id msg" userId session] handled
            show ?thesis by auto
          qed
        next
          case address
          let ?session' = "session\<lparr>physicalAddress := Some (address_of (trim t)),
                                    step := creating_order\<rparr>"
          let ?st1 = "st\<lparr>userSessions := (userSessions st)(userId \<mapsto> ?session')\<rparr>"
          let ?created = "createHeadlessOrder w ?st1 (chat_id msg) userId ?session'"
          from run Some False session product address trimmed
          have handled: "(case handleAddressInput w st (chat_id msg) userId (trim t) session of
                 (Inr done, st2, effs2) \<Rightarrow> (done, st2, effs2)
               | (Inl thrown, st2, effs2) \<Rightarrow>
                   (True, delete_session st2 userId,
                    effs2 @ [Send (chat_id msg) SomethingWentWrong, SessionDelete userId]))
              = (handled, st', effs)"
            by (simp add: handleCheckoutMessage_def Let_def)
          show ?thesis
          proof (cases "accepted_address t")
            case False
            from handleAddressInput_rejected[OF False, of w st "chat_id msg" userId session]
              handled
            show ?thesis by auto
          next
            case True
            note accepted = handleAddressInput_accepted[OF True, of w st "chat_id msg" userId
                              session]
            have state: "st' = fst (snd ?created) \<or> st' = delete_session (fst (snd ?created)) userId"
              using handled unfolding accepted by (auto split: option.splits)
            have effects: "set effs \<subseteq> insert (SessionSet userId ?session')
                 (set (snd (snd ?created))
                  \<union> {Send (chat_id msg) SomethingWentWrong, SessionDelete userId})"
              using handled unfolding accepted by (auto split: option.splits)
            have only: "\<forall>u s. SessionSet u s \<in> set effs \<longrightarrow> u = userId \<and> s = ?session'"
              using effects createHeadlessOrder_no_SessionSet[of _ _ w ?st1 "chat_id msg" userId
                      ?session']
              by auto
            have others: "\<forall>v. v \<noteq> userId \<longrightarrow> userSessions st' v = userSessions st v"
              using state createHeadlessOrder_state[of w ?st1 "chat_id msg" userId ?session']
              by (auto simp: delete_session_def)
            have own: "userSessions st' userId = None
                \<or> userSessions st' userId = Some ?session'"
              using state createHeadlessOrder_state[of w ?st1 "chat_id msg" userId ?session']
              by (auto simp: delete_session_def)
            have "?address"
              using Some t(1) session address True only others own by blast
            then show ?thesis by blast
          qed
        qed
      qed
    qed
  qed
qed

lemma run_messages_Cons:
  "run_messages st ((w, msg) # rest)
     = (fst (run_messages (fst (snd (handleCheckoutMessage w st msg))) rest),
        snd (snd (handleCheckoutMessage w st msg))
          @ snd (run_messages (fst (snd (handleCheckoutMessage w st msg))) rest))"
  by (simp split: prod.splits)

declare run_messages.simps(2) [simp del]

lemma run_address_later:
  assumes "SessionSet u s \<in> set (snd (run_messages st inputs))"
    and "step s = creating_order"
  shows "address_later u (map snd inputs)"
  using assms
proof (induction inputs arbitrary: st)
  case Nil
  then show ?case by simp
next
  case (Cons input rest)
  obtain w msg where input: "input = (w, msg)" by (cases input)
  obtain handled st' effs where head: "handleCheckoutMessage w st msg = (handled, st', effs)"
    by (cases "handleCheckoutMessage w st msg")
  from Cons.prems(1) have "SessionSet u s \<in> set effs
      \<or> SessionSet u s \<in> set (snd (run_messages st' rest))"
    by (simp add: input run_messages_Cons head)
  then show ?case
  proof
    assume here: "SessionSet u s \<in> set effs"
    from handleCheckoutMessage_cases[OF head] here Cons.prems(2)
    have "address_from u msg"
      by (auto simp: address_from_def)
    then show ?thesis by (simp add: input)
  next
    assume "SessionSet u s \<in> set (snd (run_messages st' rest))"
    from Cons.IH[OF this Cons.prems(2)] show ?thesis by (simp add: input)
  qed
qed

lemma run_email_then_address:
  assumes "userSessions st u = Some session"
    and "step session = collecting_email"
    and "SessionSet u s \<in> set (snd (run_messages st inputs))"
    and "step s = creating_order"
  shows "email_then_address u (map snd inputs)"
  using assms
proof (induction inputs arbitrary: st session)
  case Nil
  then show ?case by simp
next
  case (Cons input rest)
  obtain w msg where input: "input = (w, msg)" by (cases input)
  obtain handled st' effs where head: "handleCheckoutMessage w st msg = (handled, st', effs)"
    by (cases "handleCheckoutMessage w st msg")
  note stepped = handleCheckoutMessage_cases[OF head]
  have not_here: "SessionSet u s \<notin> set effs"
    using stepped Cons.prems(1,2,4) by auto
  with Cons.prems(3) have later: "SessionSet u s \<in> set (snd (run_messages st' rest))"
    by (simp add: input run_messages_Cons head)
  consider (same) "userSessions st' u = Some session"
    | (moved) "email_from u msg"
    using stepped Cons.prems(1,2)
    by (cases "from_id msg = Some u") (auto simp: email_from_def)
  then show ?case
  proof cases
    case same
    from Cons.IH[OF same Cons.prems(2) later Cons.prems(4)] show ?thesis
      by (simp add: input)
  next
    case moved
    from run_address_later[OF later Cons.prems(4)] moved show ?thesis
      by (simp add: input)
  qed
qed

lemma rejected_input_changes_nothing:
  assumes "from_id msg = Some userId"
    and "userSessions st userId = Some session"
    and "msg_text msg = Some t"
    and "(step session = collecting_email \<and> \<not> accepted_email t)
         \<or> (step session = collecting_address \<and> \<not> accepted_address t)"
  shows "fst (snd (handleCheckoutMessage w st msg)) = st"
proof -
  obtain handled st' effs where head: "handleCheckoutMessage w st msg = (handled, st', effs)"
    by (cases "handleCheckoutMessage w st msg")
  from handleCheckoutMessage_cases[OF head] assms show ?thesis
    by (auto simp: head)
qed

lemma startWalletCheckoutFlow_opens:
  assumes "SessionSet u s \<in> set (snd (startWalletCheckoutFlow w st now chatId userId product index))"
  shows "u = userId \<and> (step s = collecting_email \<or> step s = collecting_address)
     \<and> (step s = collecting_address \<longrightarrow>
           (\<exists>user. getUser st userId = Some user \<and> truthy (wallet_email user)
              \<and> email s = wallet_email user))
     \<and> ((\<forall>user. getUser st userId = Some user \<longrightarrow> \<not> truthy (wallet_email user)) \<longrightarrow>
           step s = collecting_email \<and> email s = None)"
  using assms
  by (auto simp: startWalletCheckoutFlow_def getWalletBalance_def Let_def truthy_def
        split: if_splits option.splits prod.splits sum.splits)

lemma scenario_run_reaches:
  "SessionSet 7 (scenario_session creating_order)
     \<in> set (snd (run_messages (scenario_opened None collecting_email)
          (scenario_inputs (scenario_steady (OrderResolved (Some scenario_signable)) FetchRejected))))"
  by code_simp

text \<open>
  Claim C5, as the code has it.  Over any sequence of text messages: a session that
  stands at \<open>collecting_email\<close> is written with the step \<open>creating_order\<close> only after
  a text of its user that matches the email expression and, later, a text of its user
  that is an accepted address; from any state, the step \<open>creating_order\<close> is written
  only by an accepted address.  A text that fails the check of the session's step
  leaves both maps unchanged.  \<open>startWalletCheckoutFlow\<close> writes a session at
  \<open>collecting_address\<close> only when the wallet record carries an email, which the session
  takes over as it is: that email is not tested against the expression.
\<close>

theorem creating_order_only_after_accepted_input:
  "(\<forall>session s. userSessions st userId = Some session \<and> step session = collecting_email
       \<and> SessionSet userId s \<in> set (snd (run_messages st inputs))
       \<and> step s = creating_order \<longrightarrow>
       email_then_address userId (map snd inputs))
   \<and> (\<forall>s. SessionSet userId s \<in> set (snd (run_messages st inputs))
       \<and> step s = creating_order \<longrightarrow>
       address_later userId (map snd inputs))
   \<and> (\<forall>session t. from_id msg = Some userId \<and> userSessions st userId = Some session
       \<and> msg_text msg = Some t
       \<and> ((step session = collecting_email \<and> \<not> accepted_email t)
           \<or> (step session = collecting_address \<and> \<not> accepted_address t)) \<longrightarrow>
       fst (snd (handleCheckoutMessage w st msg)) = st)
   \<and> (\<forall>s. SessionSet userId s
         \<in> set (snd (startWalletCheckoutFlow w st now chatId userId product index))
       \<and> step s = collecting_address \<longrightarrow>
       (\<exists>user. getUser st userId = Some user \<and> truthy (wallet_email user)
          \<and> email s = wallet_email user))"
proof (intro conjI allI impI)
  fix session s
  assume "userSessions st userId = Some session \<and> step session = collecting_email
       \<and> SessionSet userId s \<in> set (snd (run_messages st inputs))
       \<and> step s = creating_order"
  then show "email_then_address userId (map snd inputs)"
    using run_email_then_address[of st userId session s inputs] by blast
next
  fix s
  assume "SessionSet userId s \<in> set (snd (run_messages st inputs)) \<and> step s = creating_order"
  then show "address_later userId (map snd inputs)"
    using run_address_later[of userId s st inputs] by blast
next
  fix session t
  assume "from_id msg = Some userId \<and> userSessions st userId = Some session
       \<and> msg_text msg = Some t
       \<and> ((step session = collecting_email \<and> \<not> accepted_email t)
           \<or> (step session = collecting_address \<and> \<not> accepted_address t))"
  then show "fst (snd (handleCheckoutMessage w st msg)) = st"
    using rejected_input_changes_nothing[of msg userId st session t w] by blast
next
  fix s
  assume "SessionSet userId s
         \<in> set (snd (startWalletCheckoutFlow w st now chatId userId product index))
       \<and> step s = collecting_address"
  then show "\<exists>user. getUser st userId = Some user \<and> truthy (wallet_email user)
          \<and> email s = wallet_email user"
    using startWalletCheckoutFlow_opens[of userId s w st now chatId userId product index]
    by blast
qed


theorem creating_order_only_after_accepted_input_witness:
  "email_then_address 7
     (map snd (scenario_inputs (scenario_steady (OrderResolved (Some scenario_signable)) FetchRejected)))
   \<and> fst (snd (handleCheckoutMessage
        (scenario_steady (OrderResolved None) FetchRejected)
        (scenario_opened None collecting_email) (scenario_text ''john at example'')))
     = scenario_opened None collecting_email"
proof -
  let ?w = "scenario_steady (OrderResolved (Some scenario_signable)) FetchRejected"
  let ?down = "scenario_steady (OrderResolved None) FetchRejected"
  let ?opened = "(scenario_session collecting_email)\<lparr>email := None, physicalAddress := None\<rparr>"
  have stored: "userSessions (scenario_opened None collecting_email) 7 = Some ?opened"
    by (simp add: scenario_opened_def)
  have at: "step ?opened = collecting_email"
    by (simp add: scenario_session_def)
  have reached: "step (scenario_session creating_order) = creating_order"
    by (simp add: scenario_session_def)
  have sender: "from_id (scenario_text ''john at example'') = Some 7"
    and said: "msg_text (scenario_text ''john at example'') = Some ''john at example''"
    by (simp_all add: scenario_text_def)
  have refused: "\<not> accepted_email ''john at example''"
    by code_simp
  have ordered: "email_then_address 7 (map snd (scenario_inputs ?w))"
    using creating_order_only_after_accepted_input
            [of "scenario_opened None collecting_email" 7 "scenario_inputs ?w"]
      stored at scenario_run_reaches reached
    by blast
  have unchanged: "fst (snd (handleCheckoutMessage ?down (scenario_opened None collecting_email)
        (scenario_text ''john at example''))) = scenario_opened None collecting_email"
    using creating_order_only_after_accepted_input
            [of "scenario_opened None collecting_email" 7 _ "scenario_text ''john at example''"
                ?down]
      stored at sender said refused
    by blast
  from ordered unchanged show ?thesis by simp
qed


text \<open>
  Claim C5, as stated, fails: the wallet record carries an email that does not match
  the expression, the session is opened at \<open>collecting_address\<close> with it, and one
  address text brings the session to \<open>creating_order\<close> with no email ever accepted.
\<close>

theorem wallet_email_skips_validation_counterexample:
  "\<not> matches emailRegex ''not-an-email''
   \<and> \<not> email_then_address 7
          [scenario_text ''John Doe | 123 Main St | Austin | TX | 73301 | us'']
   \<and> userSessions (fst (startWalletCheckoutFlow
          (scenario_steady (OrderResolved None) FetchRejected)
          (scenario_state (Some ''not-an-email'')) 0 70 7 scenario_product 2)) 7
       = Some ((scenario_session collecting_address)
                 \<lparr>email := Some ''not-an-email'', physicalAddress := None\<rparr>)
   \<and> SessionSet 7 ((scenario_session creating_order)\<lparr>email := Some ''not-an-email''\<rparr>)
       \<in> set (snd (run_messages
            (fst (startWalletCheckoutFlow
               (scenario_steady (OrderResolved None) FetchRejected)
               (scenario_state (Some ''not-an-email'')) 0 70 7 scenario_product 2))
            [(scenario_steady (OrderResolved None) FetchRejected,
              scenario_text ''John Doe | 123 Main St | Austin | TX | 73301 | us'')]))"
  by code_simp

end
